theory Spec2Isabelle
  imports Main
begin

section \<open>The charon daemon's control core (src/charon/charon.c)\<close>

text \<open>
  A shallow embedding of \<^verbatim>\<open>charon.c\<close>: the signal loop \<^verbatim>\<open>run\<close>, the privilege
  drop \<^verbatim>\<open>drop_capabilities\<close>, the PID file guard \<^verbatim>\<open>check_pidfile\<close> and
  \<^verbatim>\<open>unlink_pidfile\<close>, the logger set-up \<^verbatim>\<open>initialize_loggers\<close> and \<^verbatim>\<open>main\<close>.
  The process state that the C code keeps in globals (\<^verbatim>\<open>charon\<close>, \<^verbatim>\<open>lib\<close>,
  \<^verbatim>\<open>pidfile\<close>) and the part of the operating system the code touches are one
  record, passed explicitly. Everything the code calls outside this file is written to
  a trace, in call order. What the outside world answers (does \<^verbatim>\<open>setgid\<close> succeed,
  which signal does \<^verbatim>\<open>sigwait\<close> return) is read from an environment record.
\<close>

subsection \<open>Diagnostic categories and severity levels\<close>

text \<open>
  The categories are those of the \<^verbatim>\<open>long_opts\<close> table of \<^verbatim>\<open>main\<close>, in its order;
  a loop \<^verbatim>\<open>for (group = 0; group < DBG_MAX; group++)\<close> runs over \<open>all_groups\<close>.
  The levels are integers, named as the usage text names them.
\<close>

datatype debug_t =
  DBG_DMN | DBG_MGR | DBG_IKE | DBG_CHD | DBG_JOB | DBG_CFG | DBG_KNL
  | DBG_NET | DBG_ENC | DBG_TNC | DBG_IMC | DBG_IMV | DBG_TLS | DBG_LIB

definition all_groups :: "debug_t list" where
  "all_groups = [DBG_DMN, DBG_MGR, DBG_IKE, DBG_CHD, DBG_JOB, DBG_CFG, DBG_KNL,
                 DBG_NET, DBG_ENC, DBG_TNC, DBG_IMC, DBG_IMV, DBG_TLS, DBG_LIB]"

text \<open>
  Modelled from the spec: the table \<^verbatim>\<open>debug_lower_names\<close> that \<^verbatim>\<open>%N\<close> prints is
  declared in the library's debug header, which is not part of the sources at hand. The
  names are the category names of the usage text.
\<close>

fun debug_lower_names :: "debug_t \<Rightarrow> string" where
  "debug_lower_names DBG_DMN = ''dmn''"
| "debug_lower_names DBG_MGR = ''mgr''"
| "debug_lower_names DBG_IKE = ''ike''"
| "debug_lower_names DBG_CHD = ''chd''"
| "debug_lower_names DBG_JOB = ''job''"
| "debug_lower_names DBG_CFG = ''cfg''"
| "debug_lower_names DBG_KNL = ''knl''"
| "debug_lower_names DBG_NET = ''net''"
| "debug_lower_names DBG_ENC = ''enc''"
| "debug_lower_names DBG_TNC = ''tnc''"
| "debug_lower_names DBG_IMC = ''imc''"
| "debug_lower_names DBG_IMV = ''imv''"
| "debug_lower_names DBG_TLS = ''tls''"
| "debug_lower_names DBG_LIB = ''lib''"

type_synonym level_t = int

definition LEVEL_SILENT :: level_t where "LEVEL_SILENT = - 1"
definition LEVEL_AUDIT :: level_t where "LEVEL_AUDIT = 0"
definition LEVEL_CTRL :: level_t where "LEVEL_CTRL = 1"
definition LEVEL_DIAG :: level_t where "LEVEL_DIAG = 2"
definition LEVEL_RAW :: level_t where "LEVEL_RAW = 3"
definition LEVEL_PRIVATE :: level_t where "LEVEL_PRIVATE = 4"

text \<open>The group argument of \<^verbatim>\<open>set_level\<close>: one category, or \<^verbatim>\<open>DBG_ANY\<close>.\<close>

datatype group_arg = Group debug_t | DBG_ANY

subsection \<open>Signals and exit codes\<close>

text \<open>Signal numbers of \<^verbatim>\<open>signal.h\<close> (Linux).\<close>

definition SIGHUP :: int where "SIGHUP = 1"
definition SIGINT :: int where "SIGINT = 2"
definition SIGILL :: int where "SIGILL = 4"
definition SIGBUS :: int where "SIGBUS = 7"
definition SIGSEGV :: int where "SIGSEGV = 11"
definition SIGPIPE :: int where "SIGPIPE = 13"
definition SIGTERM :: int where "SIGTERM = 15"

text \<open>
  Modelled from the spec: the exit codes \<^verbatim>\<open>SS_RC_*\<close> are declared in the library's
  header, which is not part of the sources at hand. The spec asks for one code per
  cause, each distinct from success (0) and from already-running (-1); the values are
  the ones the library header gives them.
\<close>

definition SS_RC_LIBSTRONGSWAN_INTEGRITY :: int where "SS_RC_LIBSTRONGSWAN_INTEGRITY = 64"
definition SS_RC_DAEMON_INTEGRITY :: int where "SS_RC_DAEMON_INTEGRITY = 65"
definition SS_RC_INITIALIZATION_FAILED :: int where "SS_RC_INITIALIZATION_FAILED = 66"

subsection \<open>Loggers, settings and the trace\<close>

datatype facility = LOG_DAEMON | LOG_AUTHPRIV

datatype stream = Stdout | Stderr | Opened string

text \<open>
  A logger object: a syslog logger on a facility, or a file logger on a stream with its
  time format. \<open>levels\<close> is the per-category threshold table; a category that
  \<^verbatim>\<open>set_level\<close> has not set since the constructor holds \<open>None\<close> (the constructors
  are not part of the sources at hand).
\<close>

datatype sink = Syslog facility | Filelog stream "string option"

record logger =
  sink :: sink
  ike_name :: bool
  levels :: "debug_t \<Rightarrow> level_t option"

text \<open>
  Modelled from the spec: the settings object (\<^verbatim>\<open>lib->settings\<close>) is not part of the
  sources at hand. A key is the list of its dot-separated components. A typed getter
  returns the configured value when the key is present and the caller's default
  otherwise; the section enumerator lists the names of the subsections in file order.
\<close>

record settings =
  sections :: "string list \<Rightarrow> string list"
  ints :: "string list \<Rightarrow> int option"
  bools :: "string list \<Rightarrow> bool option"
  strs :: "string list \<Rightarrow> string option"

definition get_int :: "settings \<Rightarrow> string list \<Rightarrow> int \<Rightarrow> int" where
  "get_int s key def = (case ints s key of Some v \<Rightarrow> v | None \<Rightarrow> def)"

definition get_bool :: "settings \<Rightarrow> string list \<Rightarrow> bool \<Rightarrow> bool" where
  "get_bool s key def = (case bools s key of Some v \<Rightarrow> v | None \<Rightarrow> def)"

definition get_str :: "settings \<Rightarrow> string list \<Rightarrow> string option" where
  "get_str s key = strs s key"

datatype arg = I int | S string

datatype alert_t = ALERT_SHUTDOWN_SIGNAL

datatype handler = Segv_handler | SIG_IGN

text \<open>Every call that leaves \<^verbatim>\<open>charon.c\<close>, with the arguments that matter.\<close>

datatype call =
  Library_init | Library_deinit | Integrity_check_file
  | Libhydra_init | Libhydra_deinit | Libcharon_init | Libcharon_deinit
  | Charon_initialize | Charon_start
  | Dbg_stderr string | DBG1 string "arg list" | Usage | Print_version
  | Sys_sigprocmask | Sys_sigwait | Load_files | Plugins_reload
  | Bus_alert alert_t int
  | Sys_prctl_keepcaps | Sys_setgid nat | Sys_setuid nat | Charon_drop_capabilities
  | Sys_stat string | Sys_fopen string string | Sys_fread | Sys_fclose
  | Sys_kill int int | Sys_unlink string | Sys_fchown nat nat
  | Sys_fprintf string | Sys_fflush | Sys_ftruncate | Sys_setlinebuf string
  | Sys_sigaction int handler | Sys_pthread_sigmask

text \<open>The static \<^verbatim>\<open>FILE *pidfile\<close>: \<^verbatim>\<open>NULL\<close>, open, or closed by \<^verbatim>\<open>fclose\<close>.\<close>

datatype file_ptr = Null | Open_r | Open_w | Closed

text \<open>
  The process and the part of the system it touches.
  \<open>marker\<close> is the content of the PID file (\<open>None\<close>: no such file);
  \<open>loggers\<close> is the store of logger objects, a reference being an index into it:
  the bus and the two logger lists of \<^verbatim>\<open>charon\<close> hold references, so a
  \<^verbatim>\<open>set_level\<close> after \<^verbatim>\<open>add_listener\<close> is seen through the bus.
\<close>

record world =
  trace :: "call list"
  marker :: "string option"
  pidfile :: file_ptr
  privileged :: bool
  uid :: nat
  gid :: nat
  conf :: settings
  n_loads :: nat
  loggers :: "logger list"
  bus_listeners :: "nat list"
  sys_loggers :: "nat list"
  file_loggers :: "nat list"

datatype getopt_result = Opt_h | Opt_v | Opt_l | Opt_debug debug_t string | Opt_unknown

text \<open>
  What the outside world answers. \<open>signals\<close> is the sequence of results of
  \<^verbatim>\<open>sigwait\<close>, each an error code and a signal number; after the last one
  \<^verbatim>\<open>sigwait\<close> blocks for ever. \<open>config_files n\<close> is what the \<open>n\<close>-th call of
  \<^verbatim>\<open>load_files\<close> reads (\<open>None\<close>: the files cannot be read). \<open>getopts\<close> is the
  sequence of results of \<^verbatim>\<open>getopt_long\<close> before it returns \<^verbatim>\<open>EOF\<close>.
  \<open>ipsec_user\<close> is \<open>None\<close> when \<^verbatim>\<open>IPSEC_USER\<close> is not defined, \<open>Some None\<close>
  when the lookup fails, and \<open>Some (Some u)\<close> when it gives \<open>u\<close>; the build is
  not an Android one. \<open>kill0 p\<close> holds when \<^verbatim>\<open>kill(p, 0)\<close> returns 0.
\<close>

record env =
  have_prctl :: bool
  library_init_ok :: bool
  integrity :: "bool option"
  libhydra_init_ok :: bool
  libcharon_init_ok :: bool
  getopts :: "getopt_result list"
  ipsec_user :: "nat option option"
  ipsec_group :: "nat option option"
  charon_initialize_ok :: bool
  fopen_r_ok :: bool
  fopen_w_ok :: bool
  unlink_ok :: "bool \<Rightarrow> bool"
  kill0 :: "int \<Rightarrow> bool"
  getpid :: int
  setgid_ok :: "nat \<Rightarrow> bool"
  setuid_ok :: "nat \<Rightarrow> bool"
  drop_caps_ok :: bool
  fopen_log_ok :: "string \<Rightarrow> bool"
  signals :: "(int \<times> int) list"
  config_files :: "nat \<Rightarrow> settings option"

definition call :: "call \<Rightarrow> world \<Rightarrow> world" where
  "call c w = w\<lparr>trace := trace w @ [c]\<rparr>"

subsection \<open>The signal loop: \<^verbatim>\<open>run\<close>\<close>

text \<open>
  Modelled from the spec: \<^verbatim>\<open>load_files\<close> is not part of the sources at hand. A
  successful read replaces the settings by what was read; a failed read returns
  \<^verbatim>\<open>FALSE\<close> and leaves the settings as they were.
\<close>

definition load_files :: "env \<Rightarrow> world \<Rightarrow> bool \<times> world" where
  "load_files e w =
     (let w1 = call Load_files (w\<lparr>n_loads := Suc (n_loads w)\<rparr>) in
      case config_files e (n_loads w) of
        None \<Rightarrow> (False, w1)
      | Some s \<Rightarrow> (True, w1\<lparr>conf := s\<rparr>))"

definition alert :: "alert_t \<Rightarrow> int \<Rightarrow> world \<Rightarrow> world" where
  "alert a sig w = call (Bus_alert a sig) w"

text \<open>
  The \<^verbatim>\<open>while (TRUE)\<close> of \<^verbatim>\<open>run\<close>, over the results of \<^verbatim>\<open>sigwait\<close> still to
  come. The loop returns the world in which \<^verbatim>\<open>run\<close> returns; with no result left
  \<^verbatim>\<open>sigwait\<close> never returns, and neither does the loop (\<open>None\<close>).
\<close>

fun run_loop :: "env \<Rightarrow> (int \<times> int) list \<Rightarrow> world \<Rightarrow> world option" where
  "run_loop e [] w = None"
| "run_loop e ((error, sig) # rest) w =
     (let w1 = call Sys_sigwait w in
      if error \<noteq> 0 then
        Some (call (DBG1 ''error %d while waiting for a signal'' [I error]) w1)
      else if sig = SIGHUP then
        (let w2 = call (DBG1 ''signal of type SIGHUP received. Reloading configuration'' []) w1;
             r = load_files e w2 in
         if fst r then run_loop e rest (call Plugins_reload (snd r))
         else run_loop e rest
                (call (DBG1 ''reloading config failed, keeping old'' []) (snd r)))
      else if sig = SIGINT then
        Some (alert ALERT_SHUTDOWN_SIGNAL sig
               (call (DBG1 ''signal of type SIGINT received. Shutting down'' []) w1))
      else if sig = SIGTERM then
        Some (alert ALERT_SHUTDOWN_SIGNAL sig
               (call (DBG1 ''signal of type SIGTERM received. Shutting down'' []) w1))
      else run_loop e rest (call (DBG1 ''unknown signal %d received. Ignored'' [I sig]) w1))"

definition run :: "env \<Rightarrow> world \<Rightarrow> world option" where
  "run e w = run_loop e (signals e) (call Sys_sigprocmask w)"

subsection \<open>The privilege drop: \<^verbatim>\<open>drop_capabilities\<close> and \<^verbatim>\<open>lookup_uid_gid\<close>\<close>

text \<open>
  \<^verbatim>\<open>prctl\<close> is called when the build has it; its result is not looked at.
  \<open>privileged\<close> is cleared by a successful \<^verbatim>\<open>setuid\<close>.
\<close>

definition drop_capabilities :: "env \<Rightarrow> world \<Rightarrow> bool \<times> world" where
  "drop_capabilities e w =
     (let w0 = (if have_prctl e then call Sys_prctl_keepcaps w else w);
          w1 = call (Sys_setgid (gid w0)) w0 in
      if \<not> setgid_ok e (gid w0) then
        (False, call (DBG1 ''change to unprivileged group failed'' []) w1)
      else
        (let w2 = call (Sys_setuid (uid w1)) w1 in
         if \<not> setuid_ok e (uid w1) then
           (False, call (DBG1 ''change to unprivileged user failed'' []) w2)
         else
           (let w3 = call Charon_drop_capabilities (w2\<lparr>privileged := False\<rparr>) in
            if \<not> drop_caps_ok e then
              (False, call (DBG1 ''unable to drop daemon capabilities'' []) w3)
            else (True, w3))))"

definition lookup_uid_gid :: "env \<Rightarrow> world \<Rightarrow> bool \<times> world" where
  "lookup_uid_gid e w =
     (case ipsec_user e of
        Some None \<Rightarrow> (False, call (DBG1 ''resolving user failed'' []) w)
      | u \<Rightarrow>
         (let w1 = (case u of Some (Some n) \<Rightarrow> w\<lparr>uid := n\<rparr> | _ \<Rightarrow> w) in
          case ipsec_group e of
            Some None \<Rightarrow> (False, call (DBG1 ''resolving group failed'' []) w1)
          | Some (Some n) \<Rightarrow> (True, w1\<lparr>gid := n\<rparr>)
          | None \<Rightarrow> (True, w1)))"

subsection \<open>The PID file: \<^verbatim>\<open>check_pidfile\<close> and \<^verbatim>\<open>unlink_pidfile\<close>\<close>

definition PID_FILE :: string where
  "PID_FILE = ''/var/run/charon.pid''"

text \<open>
  \<^verbatim>\<open>atoi\<close> as the C library has it, \<^verbatim>\<open>(int) strtol(s, NULL, 10)\<close>: white space, an
  optional sign, then decimal digits up to the first other character (the terminating
  NUL is one). \<^verbatim>\<open>strtol\<close> keeps the value within the range of a 64-bit
  \<^verbatim>\<open>long\<close>, and the conversion to \<^verbatim>\<open>int\<close> keeps its low 32 bits, read as a signed
  number. \<^verbatim>\<open>pid_t\<close> is a 32-bit \<^verbatim>\<open>int\<close> as well.
\<close>

definition isspace :: "char \<Rightarrow> bool" where
  "isspace c = (of_char c \<in> {32, 9, 10, 11, 12, 13 :: nat})"

definition isdigit :: "char \<Rightarrow> bool" where
  "isdigit c = (48 \<le> (of_char c :: nat) \<and> (of_char c :: nat) \<le> 57)"

definition digits_val :: "string \<Rightarrow> int" where
  "digits_val ds = foldl (\<lambda>a c. 10 * a + (int (of_char c) - 48)) 0 ds"

definition strtol :: "string \<Rightarrow> int" where
  "strtol s =
     (let v = (case dropWhile isspace s of
                 [] \<Rightarrow> 0
               | c # r \<Rightarrow>
                  if c = CHR ''-'' then - digits_val (takeWhile isdigit r)
                  else if c = CHR ''+'' then digits_val (takeWhile isdigit r)
                  else digits_val (takeWhile isdigit (c # r)))
      in max (- 9223372036854775808) (min 9223372036854775807 v))"

definition to_int :: "int \<Rightarrow> int" where
  "to_int v = (v + 2147483648) mod 4294967296 - 2147483648"

definition atoi :: "string \<Rightarrow> int" where
  "atoi s = to_int (strtol s)"

text \<open>\<^verbatim>\<open>%d\<close> of \<^verbatim>\<open>fprintf\<close>.\<close>

fun dec :: "nat \<Rightarrow> string" where
  "dec n = (if n < 10 then [''0123456789'' ! n]
            else dec (n div 10) @ [''0123456789'' ! (n mod 10)])"

definition printf_d :: "int \<Rightarrow> string" where
  "printf_d i = (if i < 0 then CHR ''-'' # dec (nat (- i)) else dec (nat i))"

text \<open>
  Lines 253-254: the stale file is removed. \<^verbatim>\<open>unlink\<close> may fail, and its result is
  not looked at.
\<close>

definition remove_stale :: "env \<Rightarrow> world \<Rightarrow> world" where
  "remove_stale e w =
     (let w1 = call (DBG1 ''removing pidfile %s, process not running'' [S PID_FILE]) w;
          w2 = call (Sys_unlink PID_FILE) w1 in
      if unlink_ok e (privileged w2) then w2\<lparr>marker := None\<rparr> else w2)"

text \<open>
  Lines 257-264: the new file is created. \<^verbatim>\<open>fopen\<close> for writing may fail; then
  nothing is written. A successful \<^verbatim>\<open>fopen\<close> creates the file or empties it.
\<close>

definition create_pidfile :: "env \<Rightarrow> world \<Rightarrow> world" where
  "create_pidfile e w =
     (let w1 = call (Sys_fopen PID_FILE ''w'') w in
      if fopen_w_ok e then
        (let w2 = w1\<lparr>pidfile := Open_w, marker := Some []\<rparr>;
             w3 = call (Sys_fchown (uid w2) (gid w2)) w2;
             line = printf_d (getpid e) @ [CHR 0x0A];
             w4 = call (Sys_fprintf line) w3;
             w5 = call Sys_fflush w4 in
         w5\<lparr>marker := Some line\<rparr>)
      else w1\<lparr>pidfile := Null\<rparr>)"

text \<open>
  \<^verbatim>\<open>stat\<close> succeeds when the file exists. \<^verbatim>\<open>fread\<close> takes the first 64 bytes, and
  \<^verbatim>\<open>atoi\<close> is called when it has read any; its result, a 32-bit \<^verbatim>\<open>int\<close>, is
  the \<^verbatim>\<open>pid\<close>. \<^verbatim>\<open>kill\<close> is called when the pid is not 0 (the \<^verbatim>\<open>&&\<close> of line
  248).
\<close>

definition check_pidfile :: "env \<Rightarrow> world \<Rightarrow> bool \<times> world" where
  "check_pidfile e w =
     (let w1 = call (Sys_stat PID_FILE) w in
      case marker w1 of
        None \<Rightarrow> (False, create_pidfile e w1)
      | Some content \<Rightarrow>
         (let w2 = call (Sys_fopen PID_FILE ''r'') w1 in
          if fopen_r_ok e then
            (let buf = take 64 content;
                 w3 = call Sys_fread (w2\<lparr>pidfile := Open_r\<rparr>);
                 pid = (if buf \<noteq> [] then atoi buf else 0);
                 w4 = (call Sys_fclose w3)\<lparr>pidfile := Closed\<rparr> in
             if pid \<noteq> 0 then
               (let w5 = call (Sys_kill pid 0) w4 in
                if kill0 e pid then (True, w5)
                else (False, create_pidfile e (remove_stale e w5)))
             else (False, create_pidfile e (remove_stale e w4)))
          else (False, create_pidfile e (remove_stale e (w2\<lparr>pidfile := Null\<rparr>)))))"

text \<open>
  \<^verbatim>\<open>ftruncate\<close> empties the file when the stream is the one opened for writing; on
  any other stream it fails, and its result is ignored.
\<close>

definition unlink_pidfile :: "env \<Rightarrow> world \<Rightarrow> world" where
  "unlink_pidfile e w =
     (let w1 = (if pidfile w \<noteq> Null then
                  (let w2 = call Sys_ftruncate w;
                       w3 = (if pidfile w2 = Open_w
                             then w2\<lparr>marker := map_option (\<lambda>_. []) (marker w2)\<rparr> else w2) in
                   (call Sys_fclose w3)\<lparr>pidfile := Closed\<rparr>)
                else w);
          w4 = call (Sys_unlink PID_FILE) w1 in
      if unlink_ok e (privileged w4) then w4\<lparr>marker := None\<rparr> else w4)"

subsection \<open>The loggers: \<^verbatim>\<open>initialize_loggers\<close>\<close>

text \<open>
  Modelled from the spec: the logger constructors, \<^verbatim>\<open>set_level\<close>, \<^verbatim>\<open>add_listener\<close>
  and \<^verbatim>\<open>insert_last\<close> are not part of the sources at hand. A constructor allocates a
  new object; \<^verbatim>\<open>set_level\<close> sets the threshold of one category, or of every
  category when the group is \<^verbatim>\<open>DBG_ANY\<close>; the other two append the reference.
\<close>

definition logger_create :: "sink \<Rightarrow> bool \<Rightarrow> world \<Rightarrow> nat \<times> world" where
  "logger_create snk ike w =
     (length (loggers w),
      w\<lparr>loggers := loggers w @ [\<lparr>sink = snk, ike_name = ike, levels = (\<lambda>g. None)\<rparr>]\<rparr>)"

definition set_level :: "nat \<Rightarrow> group_arg \<Rightarrow> level_t \<Rightarrow> world \<Rightarrow> world" where
  "set_level r grp l w =
     (if r < length (loggers w) then
        w\<lparr>loggers := (loggers w)[r := (loggers w ! r)\<lparr>levels :=
             (case grp of
                Group g \<Rightarrow> (levels (loggers w ! r))(g := Some l)
              | DBG_ANY \<Rightarrow> (\<lambda>g. Some l))\<rparr>]\<rparr>
      else w)"

definition add_listener :: "nat \<Rightarrow> world \<Rightarrow> world" where
  "add_listener r w = w\<lparr>bus_listeners := bus_listeners w @ [r]\<rparr>"

definition insert_sys_logger :: "nat \<Rightarrow> world \<Rightarrow> world" where
  "insert_sys_logger r w = w\<lparr>sys_loggers := sys_loggers w @ [r]\<rparr>"

definition insert_file_logger :: "nat \<Rightarrow> world \<Rightarrow> world" where
  "insert_file_logger r w = w\<lparr>file_loggers := file_loggers w @ [r]\<rparr>"

text \<open>
  Lines 321-329 and 371-379: the default of the section is read with the global
  fallback 1, then every category is read with that default.
\<close>

definition set_configured_levels :: "settings \<Rightarrow> string list \<Rightarrow> nat \<Rightarrow> world \<Rightarrow> world" where
  "set_configured_levels s sect r w =
     (let def = get_int s (sect @ [''default'']) 1 in
      foldl (\<lambda>w' g. set_level r (Group g) (get_int s (sect @ [debug_lower_names g]) def) w')
        w all_groups)"

text \<open>Lines 321-331, after the logger of a known facility has been created.\<close>

definition syslog_setup :: "settings \<Rightarrow> string \<Rightarrow> nat \<times> world \<Rightarrow> world" where
  "syslog_setup s facility rw =
     (let r = fst rw;
          w1 = set_configured_levels s [''charon'', ''syslog'', facility] r (snd rw) in
      add_listener r (insert_sys_logger r w1))"

text \<open>
  Lines 303-332: the loop over the sections of \<^verbatim>\<open>charon.syslog\<close>. The first
  component of the state is \<^verbatim>\<open>loggers_defined\<close>.
\<close>

fun syslog_loop :: "settings \<Rightarrow> string list \<Rightarrow> nat \<times> world \<Rightarrow> nat \<times> world" where
  "syslog_loop s [] nw = nw"
| "syslog_loop s (facility # rest) nw =
     (let loggers_defined = fst nw + 1;
          w = snd nw;
          ike = get_bool s [''charon'', ''syslog'', facility, ''ike_name''] False in
      if facility = ''daemon'' then
        syslog_loop s rest
          (loggers_defined, syslog_setup s facility (logger_create (Syslog LOG_DAEMON) ike w))
      else if facility = ''auth'' then
        syslog_loop s rest
          (loggers_defined, syslog_setup s facility (logger_create (Syslog LOG_AUTHPRIV) ike w))
      else syslog_loop s rest (loggers_defined, w))"

text \<open>Lines 366-381, once the stream of the file logger is known.\<close>

definition filelog_setup :: "settings \<Rightarrow> string \<Rightarrow> stream \<Rightarrow> world \<Rightarrow> world" where
  "filelog_setup s filename file w =
     (let rw = logger_create
                 (Filelog file (get_str s [''charon'', ''filelog'', filename, ''time_format'']))
                 (get_bool s [''charon'', ''filelog'', filename, ''ike_name''] False) w;
          r = fst rw;
          w1 = set_configured_levels s [''charon'', ''filelog'', filename] r (snd rw) in
      add_listener r (insert_file_logger r w1))"

text \<open>
  Lines 338-383: the loop over the sections of \<^verbatim>\<open>charon.filelog\<close>. A file that
  cannot be opened is logged and skipped, and still counted in \<^verbatim>\<open>loggers_defined\<close>.
\<close>

fun filelog_loop :: "env \<Rightarrow> settings \<Rightarrow> string list \<Rightarrow> nat \<times> world \<Rightarrow> nat \<times> world" where
  "filelog_loop e s [] nw = nw"
| "filelog_loop e s (filename # rest) nw =
     (let loggers_defined = fst nw + 1;
          w = snd nw in
      if filename = ''stderr'' then
        filelog_loop e s rest (loggers_defined, filelog_setup s filename Stderr w)
      else if filename = ''stdout'' then
        filelog_loop e s rest (loggers_defined, filelog_setup s filename Stdout w)
      else
        (let append = get_bool s [''charon'', ''filelog'', filename, ''append''] True;
             w1 = call (Sys_fopen filename (if append then ''a'' else ''w'')) w in
         if \<not> fopen_log_ok e filename then
           filelog_loop e s rest
             (loggers_defined,
              call (DBG1 ''opening file %s for logging failed: %s'' [S filename]) w1)
         else
           (let w2 = (if get_bool s [''charon'', ''filelog'', filename, ''flush_line''] False
                      then call (Sys_setlinebuf filename) w1 else w1) in
            filelog_loop e s rest
              (loggers_defined, filelog_setup s filename (Opened filename) w2))))"

text \<open>Lines 389-410: the default loggers, set up when no section was enumerated.\<close>

definition default_loggers :: "bool \<Rightarrow> (debug_t \<Rightarrow> level_t) \<Rightarrow> world \<Rightarrow> world" where
  "default_loggers use_stderr lv w =
     (let f = logger_create (Filelog Stdout None) False w;
          w1 = insert_file_logger (fst f) (add_listener (fst f) (snd f));
          d = logger_create (Syslog LOG_DAEMON) False w1;
          w2 = insert_sys_logger (fst d) (add_listener (fst d) (snd d));
          w3 = foldl (\<lambda>w' g.
                 (let w'' = set_level (fst d) (Group g) (lv g) w' in
                  if use_stderr then set_level (fst f) (Group g) (lv g) w'' else w''))
                 w2 all_groups;
          a = logger_create (Syslog LOG_AUTHPRIV) False w3;
          w4 = insert_sys_logger (fst a) (add_listener (fst a) (snd a)) in
      set_level (fst a) DBG_ANY LEVEL_AUDIT w4)"

definition initialize_loggers :: "env \<Rightarrow> bool \<Rightarrow> (debug_t \<Rightarrow> level_t) \<Rightarrow> world \<Rightarrow> world" where
  "initialize_loggers e use_stderr lv w =
     (let s = conf w;
          nw1 = syslog_loop s (sections s [''charon'', ''syslog'']) (0, w);
          nw2 = filelog_loop e s (sections s [''charon'', ''filelog'']) nw1 in
      if fst nw2 = 0 then default_loggers use_stderr lv (snd nw2) else snd nw2)"

subsection \<open>\<^verbatim>\<open>main\<close>\<close>

text \<open>The label \<^verbatim>\<open>deinit\<close>, lines 590-594.\<close>

definition deinit :: "int \<Rightarrow> world \<Rightarrow> int \<times> world" where
  "deinit status w =
     (status, call Library_deinit (call Libhydra_deinit (call Libcharon_deinit w)))"

text \<open>
  Lines 484-534: the argument loop. \<open>Inl\<close> is a \<^verbatim>\<open>goto deinit\<close> with its status,
  \<open>Inr\<close> the values of \<^verbatim>\<open>use_syslog\<close> and \<^verbatim>\<open>levels\<close> when the loop is left.
\<close>

fun handle_args ::
  "getopt_result list \<Rightarrow> bool \<Rightarrow> (debug_t \<Rightarrow> level_t) \<Rightarrow> world
    \<Rightarrow> (int \<times> world) + (bool \<times> (debug_t \<Rightarrow> level_t))" where
  "handle_args [] use_syslog lv w = Inr (use_syslog, lv)"
| "handle_args (Opt_h # rest) use_syslog lv w = Inl (0, call Usage w)"
| "handle_args (Opt_v # rest) use_syslog lv w = Inl (0, call Print_version w)"
| "handle_args (Opt_l # rest) use_syslog lv w = handle_args rest True lv w"
| "handle_args (Opt_debug g optarg # rest) use_syslog lv w =
     handle_args rest use_syslog (lv(g := atoi optarg)) w"
| "handle_args (Opt_unknown # rest) use_syslog lv w = Inl (1, call Usage w)"

text \<open>Lines 564-578: the fault handlers and the signal mask.\<close>

definition install_handlers :: "world \<Rightarrow> world" where
  "install_handlers w =
     call Sys_pthread_sigmask
       (call (Sys_sigaction SIGPIPE SIG_IGN)
         (call (Sys_sigaction SIGBUS Segv_handler)
           (call (Sys_sigaction SIGILL Segv_handler)
             (call (Sys_sigaction SIGSEGV Segv_handler) w))))"

text \<open>
  Lines 445-581: \<^verbatim>\<open>main\<close> up to the start of the thread pool. \<open>Inl\<close> is the end
  of the process, with its status and the world it leaves (an \<^verbatim>\<open>exit\<close>, or a
  \<^verbatim>\<open>goto deinit\<close> followed by the \<^verbatim>\<open>return\<close>); \<open>Inr\<close> is the world in which
  \<^verbatim>\<open>run\<close> is called.
\<close>

definition startup :: "env \<Rightarrow> world \<Rightarrow> (int \<times> world) + world" where
  "startup e w =
     (let w1 = call Library_init w in
      if \<not> library_init_ok e then
        Inl (SS_RC_LIBSTRONGSWAN_INTEGRITY, call Library_deinit w1)
      else
      (let w2 = (if integrity e \<noteq> None then call Integrity_check_file w1 else w1) in
      if integrity e = Some False then
        Inl (SS_RC_DAEMON_INTEGRITY,
             call Library_deinit (call (Dbg_stderr ''integrity check of charon failed'') w2))
      else
      (let w3 = call Libhydra_init w2 in
      if \<not> libhydra_init_ok e then
        Inl (SS_RC_INITIALIZATION_FAILED,
             call Library_deinit (call Libhydra_deinit
               (call (Dbg_stderr ''initialization failed - aborting charon'') w3)))
      else
      (let w4 = call Libcharon_init w3 in
      if \<not> libcharon_init_ok e then
        Inl (deinit SS_RC_INITIALIZATION_FAILED
               (call (Dbg_stderr ''initialization failed - aborting charon'') w4))
      else
      (case handle_args (getopts e) False (\<lambda>g. LEVEL_CTRL) w4 of
        Inl sw \<Rightarrow> Inl (deinit (fst sw) (snd sw))
      | Inr ul \<Rightarrow>
      (let l = lookup_uid_gid e w4 in
      if \<not> fst l then
        Inl (deinit SS_RC_INITIALIZATION_FAILED
               (call (Dbg_stderr ''invalid uid/gid - aborting charon'') (snd l)))
      else
      (let w5 = initialize_loggers e (\<not> fst ul) (snd ul) (snd l);
           w6 = call Charon_initialize w5 in
      if \<not> charon_initialize_ok e then
        Inl (deinit SS_RC_INITIALIZATION_FAILED
               (call (DBG1 ''initialization failed - aborting charon'' []) w6))
      else
      (let c = check_pidfile e w6 in
      if fst c then
        Inl (deinit (- 1)
               (call (DBG1 ''charon already running (%s exists)'' [S PID_FILE]) (snd c)))
      else
      (let d = drop_capabilities e (snd c) in
      if \<not> fst d then
        Inl (deinit SS_RC_INITIALIZATION_FAILED
               (call (DBG1 ''capability dropping failed - aborting charon'' []) (snd d)))
      else Inr (call Charon_start (install_handlers (snd d))))))))))))"

text \<open>
  \<^verbatim>\<open>main\<close>: the exit status and the world the process leaves, or \<open>None\<close> when the
  process never ends (\<^verbatim>\<open>run\<close> does not return).
\<close>

definition main :: "env \<Rightarrow> world \<Rightarrow> (int \<times> world) option" where
  "main e w =
     (case startup e w of
        Inl sw \<Rightarrow> Some sw
      | Inr w1 \<Rightarrow>
         (case run e w1 of
            None \<Rightarrow> None
          | Some w2 \<Rightarrow> Some (deinit 0 (unlink_pidfile e w2))))"

subsection \<open>Observations and sample inputs\<close>

text \<open>The alerts published on the bus, read off a trace.\<close>

fun alerts_of :: "call list \<Rightarrow> (alert_t \<times> int) list" where
  "alerts_of [] = []"
| "alerts_of (Bus_alert a s # cs) = (a, s) # alerts_of cs"
| "alerts_of (c # cs) = alerts_of cs"

text \<open>
  The reload step as the spec words it: the files are read again; when that succeeds the
  plugins are asked to reload, and when it fails the failure is logged and the settings
  stay as they are.
\<close>

definition sighup_spec :: "env \<Rightarrow> world \<Rightarrow> world" where
  "sighup_spec e w =
     (case config_files e (n_loads w) of
        Some s \<Rightarrow>
          w\<lparr>trace := trace w @
               [Sys_sigwait, DBG1 ''signal of type SIGHUP received. Reloading configuration'' [],
                Load_files, Plugins_reload],
            conf := s, n_loads := Suc (n_loads w)\<rparr>
      | None \<Rightarrow>
          w\<lparr>trace := trace w @
               [Sys_sigwait, DBG1 ''signal of type SIGHUP received. Reloading configuration'' [],
                Load_files, DBG1 ''reloading config failed, keeping old'' []],
            n_loads := Suc (n_loads w)\<rparr>)"

text \<open>
  A process that has just started on a system with no PID file and no configuration, and
  an environment in which every call succeeds, no process answers \<^verbatim>\<open>kill\<close> and no
  signal arrives.
\<close>

definition no_settings :: settings where
  "no_settings =
     \<lparr>sections = (\<lambda>k. []), ints = (\<lambda>k. None), bools = (\<lambda>k. None), strs = (\<lambda>k. None)\<rparr>"

definition boot :: world where
  "boot = \<lparr>trace = [], marker = None, pidfile = Null, privileged = True, uid = 0, gid = 0,
            conf = no_settings, n_loads = 0, loggers = [], bus_listeners = [],
            sys_loggers = [], file_loggers = []\<rparr>"

definition fair_env :: env where
  "fair_env = \<lparr>have_prctl = True, library_init_ok = True, integrity = None,
     libhydra_init_ok = True, libcharon_init_ok = True, getopts = [],
     ipsec_user = None, ipsec_group = None, charon_initialize_ok = True,
     fopen_r_ok = True, fopen_w_ok = True, unlink_ok = (\<lambda>p. True), kill0 = (\<lambda>p. False),
     getpid = 4242, setgid_ok = (\<lambda>g. True), setuid_ok = (\<lambda>u. True), drop_caps_ok = True,
     fopen_log_ok = (\<lambda>f. True), signals = [], config_files = (\<lambda>n. None)\<rparr>"

text \<open>The line that \<^verbatim>\<open>check_pidfile\<close> writes: the pid in decimal and a newline.\<close>

definition pid_line :: "env \<Rightarrow> string" where
  "pid_line e = printf_d (getpid e) @ [CHR 0x0A]"

text \<open>The teardown calls, to read them off a trace.\<close>

fun is_teardown :: "call \<Rightarrow> bool" where
  "is_teardown Library_deinit = True"
| "is_teardown Libhydra_deinit = True"
| "is_teardown Libcharon_deinit = True"
| "is_teardown c = False"

text \<open>
  The teardown after a failed startup as the spec words it: the teardown routines of
  the stages that initialised successfully, and only those, in reverse order.
\<close>

definition spec_teardown :: "env \<Rightarrow> call list" where
  "spec_teardown e =
     (if library_init_ok e then
        (if integrity e \<noteq> Some False \<and> libhydra_init_ok e then
           (if libcharon_init_ok e then [Libcharon_deinit] else []) @ [Libhydra_deinit]
         else []) @ [Library_deinit]
      else [])"

text \<open>
  The world after the loop has handled results of \<^verbatim>\<open>sigwait\<close> that do not end it:
  the reload step for a SIGHUP, the log line for any other signal.
\<close>

fun pass_over :: "env \<Rightarrow> (int \<times> int) list \<Rightarrow> world \<Rightarrow> world" where
  "pass_over e [] w = w"
| "pass_over e (x # xs) w =
     pass_over e xs
       (if snd x = SIGHUP then sighup_spec e w
        else w\<lparr>trace := trace w @
               [Sys_sigwait, DBG1 ''unknown signal %d received. Ignored'' [I (snd x)]]\<rparr>)"

text \<open>
  The end of \<^verbatim>\<open>main\<close> once \<^verbatim>\<open>run\<close> has returned, from the world \<open>w1\<close> in which
  \<^verbatim>\<open>run\<close> was called: \<open>pre\<close> are the results of \<^verbatim>\<open>sigwait\<close> that the loop
  passed over, and \<open>in_run\<close> is what \<^verbatim>\<open>run\<close> did after its last \<^verbatim>\<open>sigwait\<close>.
  The PID file is truncated when it had been opened for writing; \<^verbatim>\<open>unlink\<close> is
  called in any case and removes the file when it succeeds; the three teardown routines
  follow.
\<close>

definition clean_shutdown :: "env \<Rightarrow> (int \<times> int) list \<Rightarrow> call list \<Rightarrow> world \<Rightarrow> world" where
  "clean_shutdown e pre in_run w1 =
     (let w2 = pass_over e pre (call Sys_sigprocmask w1) in
      w2\<lparr>trace := trace w2 @ [Sys_sigwait] @ in_run @
            (if fopen_w_ok e then [Sys_ftruncate, Sys_fclose] else []) @
            [Sys_unlink PID_FILE, Libcharon_deinit, Libhydra_deinit, Library_deinit],
         pidfile := (if fopen_w_ok e then Closed else Null),
         marker := (if unlink_ok e False then None
                    else if fopen_w_ok e then Some [] else marker w1)\<rparr>)"

subsection \<open>The logger set-up in the spec's words\<close>

text \<open>
  The threshold of a category as the spec words it: the value configured for the
  category if there is one, else the default configured for the facility or file if
  there is one, else the global fallback 1.
\<close>

definition threshold_spec :: "settings \<Rightarrow> string list \<Rightarrow> debug_t \<Rightarrow> level_t" where
  "threshold_spec s sect g =
     (case ints s (sect @ [debug_lower_names g]) of
        Some v \<Rightarrow> v
      | None \<Rightarrow> (case ints s (sect @ [''default'']) of Some d \<Rightarrow> d | None \<Rightarrow> 1))"

text \<open>
  A logger object that is created, put on the bus and kept in the list of its kind;
  \<open>registers\<close> does so for a list of loggers, in order.
\<close>

definition register :: "logger \<Rightarrow> world \<Rightarrow> world" where
  "register l w =
     w\<lparr>loggers := loggers w @ [l],
       bus_listeners := bus_listeners w @ [length (loggers w)],
       sys_loggers := (case sink l of Syslog fac \<Rightarrow> sys_loggers w @ [length (loggers w)]
                       | Filelog f t \<Rightarrow> sys_loggers w),
       file_loggers := (case sink l of Syslog fac \<Rightarrow> file_loggers w
                        | Filelog f t \<Rightarrow> file_loggers w @ [length (loggers w)])\<rparr>"

definition registers :: "logger list \<Rightarrow> world \<Rightarrow> world" where
  "registers ls w = foldl (\<lambda>w' l. register l w') w ls"

text \<open>
  The listener of a syslog section (none for a facility other than \<^verbatim>\<open>daemon\<close> and
  \<^verbatim>\<open>auth\<close>) and of a file section (none when the file cannot be opened), and the
  calls a file section makes.
\<close>

definition sys_facility :: "string \<Rightarrow> facility option" where
  "sys_facility f = (if f = ''daemon'' then Some LOG_DAEMON
                     else if f = ''auth'' then Some LOG_AUTHPRIV else None)"

definition sys_logger_spec :: "settings \<Rightarrow> string \<Rightarrow> logger list" where
  "sys_logger_spec s f =
     (case sys_facility f of
        None \<Rightarrow> []
      | Some fac \<Rightarrow>
          [\<lparr>sink = Syslog fac,
            ike_name = get_bool s [''charon'', ''syslog'', f, ''ike_name''] False,
            levels = (\<lambda>g. Some (threshold_spec s [''charon'', ''syslog'', f] g))\<rparr>])"

definition file_stream :: "string \<Rightarrow> stream" where
  "file_stream f = (if f = ''stderr'' then Stderr else if f = ''stdout'' then Stdout else Opened f)"

definition file_bound :: "env \<Rightarrow> string \<Rightarrow> bool" where
  "file_bound e f = (f = ''stderr'' \<or> f = ''stdout'' \<or> fopen_log_ok e f)"

definition file_logger_spec :: "env \<Rightarrow> settings \<Rightarrow> string \<Rightarrow> logger list" where
  "file_logger_spec e s f =
     (if file_bound e f then
        [\<lparr>sink = Filelog (file_stream f) (get_str s [''charon'', ''filelog'', f, ''time_format'']),
          ike_name = get_bool s [''charon'', ''filelog'', f, ''ike_name''] False,
          levels = (\<lambda>g. Some (threshold_spec s [''charon'', ''filelog'', f] g))\<rparr>]
      else [])"

definition file_calls :: "env \<Rightarrow> settings \<Rightarrow> string \<Rightarrow> call list" where
  "file_calls e s f =
     (if f = ''stderr'' \<or> f = ''stdout'' then []
      else Sys_fopen f (if get_bool s [''charon'', ''filelog'', f, ''append''] True
                        then ''a'' else ''w'') #
           (if \<not> fopen_log_ok e f
            then [DBG1 ''opening file %s for logging failed: %s'' [S f]]
            else if get_bool s [''charon'', ''filelog'', f, ''flush_line''] False
                 then [Sys_setlinebuf f] else []))"

text \<open>The three default loggers of lines 389-410.\<close>

definition default_logger_specs :: "bool \<Rightarrow> (debug_t \<Rightarrow> level_t) \<Rightarrow> logger list" where
  "default_logger_specs use_stderr lv =
     [\<lparr>sink = Filelog Stdout None, ike_name = False,
       levels = (\<lambda>g. if use_stderr then Some (lv g) else None)\<rparr>,
      \<lparr>sink = Syslog LOG_DAEMON, ike_name = False, levels = (\<lambda>g. Some (lv g))\<rparr>,
      \<lparr>sink = Syslog LOG_AUTHPRIV, ike_name = False, levels = (\<lambda>g. Some LEVEL_AUDIT)\<rparr>]"


text \<open>
  A sample configuration: the syslog sections \<^verbatim>\<open>auth\<close> (default 0, \<^verbatim>\<open>ike\<close> 2) and
  \<^verbatim>\<open>local0\<close>, and the file sections \<^verbatim>\<open>stderr\<close> (with \<^verbatim>\<open>append = no\<close>) and
  \<^verbatim>\<open>/var/log/charon.log\<close>.
\<close>

definition sample_settings :: settings where
  "sample_settings =
     no_settings\<lparr>sections := (\<lambda>k. if k = [''charon'', ''filelog''] then [''stderr'', ''/var/log/charon.log'']
                                 else if k = [''charon'', ''syslog''] then [''auth'', ''local0''] else []),
                 ints := (\<lambda>k. if k = [''charon'', ''syslog'', ''auth'', ''default''] then Some 0
                              else if k = [''charon'', ''syslog'', ''auth'', ''ike''] then Some 2
                              else None),
                 bools := (\<lambda>k. if k = [''charon'', ''filelog'', ''stderr'', ''append'']
                               then Some False else None)\<rparr>"

section \<open>Properties\<close>

subsection \<open>The signal loop\<close>

lemma alerts_of_append: "alerts_of (xs @ ys) = alerts_of xs @ alerts_of ys"
  by (induction xs rule: alerts_of.induct) auto

lemma run_loop_sighup:
  "run_loop e ((0, SIGHUP) # rest) w = run_loop e rest (sighup_spec e w)"
  by (cases w) (simp add: sighup_spec_def load_files_def call_def Let_def split: option.splits)

text \<open>
  Results of \<^verbatim>\<open>sigwait\<close> that are neither an error nor a shutdown signal are passed
  over without an alert.
\<close>

lemma run_loop_skip:
  "\<forall>x\<in>set pre. fst x = 0 \<and> snd x \<noteq> SIGINT \<and> snd x \<noteq> SIGTERM \<Longrightarrow>
   \<exists>w'. (\<forall>rest. run_loop e (pre @ rest) w = run_loop e rest w') \<and>
        alerts_of (trace w') = alerts_of (trace w)"
proof (induction pre arbitrary: w)
  case Nil
  then show ?case by auto
next
  case (Cons x pre)
  obtain err s where x: "x = (err, s)" by (cases x)
  from Cons.prems x have err: "err = 0" and s: "s \<noteq> SIGINT" "s \<noteq> SIGTERM" by auto
  from Cons.prems have rest: "\<forall>x\<in>set pre. fst x = 0 \<and> snd x \<noteq> SIGINT \<and> snd x \<noteq> SIGTERM"
    by simp
  show ?case
  proof (cases "s = SIGHUP")
    case True
    from Cons.IH [OF rest, of "sighup_spec e w"] obtain w' where
      w': "\<forall>rest. run_loop e (pre @ rest) (sighup_spec e w) = run_loop e rest w'"
      "alerts_of (trace w') = alerts_of (trace (sighup_spec e w))" by blast
    have "alerts_of (trace (sighup_spec e w)) = alerts_of (trace w)"
      by (simp add: sighup_spec_def alerts_of_append split: option.splits)
    with w' show ?thesis
      using True err x run_loop_sighup by (intro exI [of _ w']) simp
  next
    case False
    let ?w1 = "call (DBG1 ''unknown signal %d received. Ignored'' [I s]) (call Sys_sigwait w)"
    from Cons.IH [OF rest, of ?w1] obtain w' where
      w': "\<forall>rest. run_loop e (pre @ rest) ?w1 = run_loop e rest w'"
      "alerts_of (trace w') = alerts_of (trace ?w1)" by blast
    have "alerts_of (trace ?w1) = alerts_of (trace w)"
      by (simp add: call_def alerts_of_append)
    with w' show ?thesis
      using False err x s by (intro exI [of _ w']) (simp add: Let_def)
  qed
qed

text \<open>
  C1. Whatever reloads and unknown signals come first, when \<^verbatim>\<open>sigwait\<close> returns
  SIGINT or SIGTERM \<^verbatim>\<open>run\<close> returns, the run has published exactly one alert,
  the shutdown alert carrying that signal, and the alert is the last thing \<^verbatim>\<open>run\<close>
  does. A signal other than SIGHUP, SIGINT and SIGTERM is logged, and the loop goes on
  with the next result of \<^verbatim>\<open>sigwait\<close>.
\<close>

theorem run_shutdown_alert:
  "(signals e = pre @ (0, sig) # rest \<and>
    (\<forall>x\<in>set pre. fst x = 0 \<and> snd x \<noteq> SIGINT \<and> snd x \<noteq> SIGTERM) \<and>
    (sig = SIGINT \<or> sig = SIGTERM) \<longrightarrow>
      map_option (\<lambda>w'. alerts_of (trace w')) (run e w)
        = Some (alerts_of (trace w) @ [(ALERT_SHUTDOWN_SIGNAL, sig)]) \<and>
      map_option (\<lambda>w'. last (trace w')) (run e w)
        = Some (Bus_alert ALERT_SHUTDOWN_SIGNAL sig)) \<and>
   (s \<noteq> SIGHUP \<and> s \<noteq> SIGINT \<and> s \<noteq> SIGTERM \<longrightarrow>
      run_loop e ((0, s) # later) w
        = run_loop e later
            (w\<lparr>trace := trace w @
                 [Sys_sigwait, DBG1 ''unknown signal %d received. Ignored'' [I s]]\<rparr>))"
proof (intro conjI impI)
  assume a: "signals e = pre @ (0, sig) # rest \<and>
    (\<forall>x\<in>set pre. fst x = 0 \<and> snd x \<noteq> SIGINT \<and> snd x \<noteq> SIGTERM) \<and>
    (sig = SIGINT \<or> sig = SIGTERM)"
  then obtain w' where
    w': "\<forall>r. run_loop e (pre @ r) (call Sys_sigprocmask w) = run_loop e r w'"
        "alerts_of (trace w') = alerts_of (trace (call Sys_sigprocmask w))"
    using run_loop_skip [of pre e "call Sys_sigprocmask w"] by blast
  have run: "run e w = run_loop e ((0, sig) # rest) w'"
    using a w' by (simp add: run_def)
  have base: "alerts_of (trace w') = alerts_of (trace w)"
    using w' by (simp add: call_def alerts_of_append)
  from a have "sig = SIGINT \<or> sig = SIGTERM" by simp
  then show "map_option (\<lambda>w'. alerts_of (trace w')) (run e w)
        = Some (alerts_of (trace w) @ [(ALERT_SHUTDOWN_SIGNAL, sig)])"
    using run base
    by (auto simp: Let_def alert_def call_def alerts_of_append SIGINT_def SIGTERM_def SIGHUP_def)
  from a have "sig = SIGINT \<or> sig = SIGTERM" by simp
  then show "map_option (\<lambda>w'. last (trace w')) (run e w)
        = Some (Bus_alert ALERT_SHUTDOWN_SIGNAL sig)"
    using run
    by (auto simp: Let_def alert_def call_def SIGINT_def SIGTERM_def SIGHUP_def)
next
  assume "s \<noteq> SIGHUP \<and> s \<noteq> SIGINT \<and> s \<noteq> SIGTERM"
  then show "run_loop e ((0, s) # later) w
        = run_loop e later
            (w\<lparr>trace := trace w @
                 [Sys_sigwait, DBG1 ''unknown signal %d received. Ignored'' [I s]]\<rparr>)"
    by (simp add: Let_def call_def)
qed

theorem run_shutdown_alert_witness:
  "map_option (\<lambda>w'. alerts_of (trace w'))
     (run (fair_env\<lparr>signals := [(0, SIGHUP), (0, 10), (0, SIGTERM), (0, SIGINT)]\<rparr>) boot)
     = Some [(ALERT_SHUTDOWN_SIGNAL, SIGTERM)] \<and>
   map_option (\<lambda>w'. last (trace w'))
     (run (fair_env\<lparr>signals := [(0, SIGHUP), (0, 10), (0, SIGTERM), (0, SIGINT)]\<rparr>) boot)
     = Some (Bus_alert ALERT_SHUTDOWN_SIGNAL SIGTERM) \<and>
   run_loop fair_env [(0, 10), (0, SIGINT)] boot
     = run_loop fair_env [(0, SIGINT)]
         (boot\<lparr>trace := [Sys_sigwait, DBG1 ''unknown signal %d received. Ignored'' [I 10]]\<rparr>)"
  using run_shutdown_alert
    [of "fair_env\<lparr>signals := [(0, SIGHUP), (0, 10), (0, SIGTERM), (0, SIGINT)]\<rparr>"
      "[(0, SIGHUP), (0, 10)]" SIGTERM "[(0, SIGINT)]" boot 10 "[(0, SIGINT)]"]
  by (simp add: SIGINT_def SIGTERM_def SIGHUP_def boot_def)

lemma run_loop_sighups:
  "run_loop e (replicate n (0, SIGHUP) @ r) w = run_loop e r ((sighup_spec e ^^ n) w)"
proof (induction n arbitrary: w)
  case 0
  show ?case by simp
next
  case (Suc n)
  have "run_loop e (replicate (Suc n) (0, SIGHUP) @ r) w
        = run_loop e (replicate n (0, SIGHUP) @ r) (sighup_spec e w)"
    using run_loop_sighup [of e "replicate n (0, SIGHUP) @ r" w] by simp
  also have "\<dots> = run_loop e r ((sighup_spec e ^^ n) (sighup_spec e w))"
    by (rule Suc.IH)
  finally show ?case by (simp add: funpow_swap1)
qed

lemma sighup_spec_reads:
  "length (filter (\<lambda>c. c = Load_files) (trace ((sighup_spec e ^^ n) w)))
     = length (filter (\<lambda>c. c = Load_files) (trace w)) + n"
proof (induction n)
  case 0
  show ?case by simp
next
  case (Suc n)
  have "length (filter (\<lambda>c. c = Load_files) (trace (sighup_spec e v)))
        = Suc (length (filter (\<lambda>c. c = Load_files) (trace v)))" for v
    by (simp add: sighup_spec_def split: option.splits)
  with Suc show ?case by simp
qed

text \<open>
  C5. A SIGHUP makes the loop read the configuration files again: \<^verbatim>\<open>load_files\<close> is
  called once. When it returns \<^verbatim>\<open>TRUE\<close> the plugins are asked to reload; when it
  returns \<^verbatim>\<open>FALSE\<close> the failure is logged and no reload is asked for; the loop
  itself leaves the settings as \<^verbatim>\<open>load_files\<close> left them (unchanged on a failure,
  as \<^verbatim>\<open>load_files\<close> is modelled). In both cases the loop goes on with the next
  result of \<^verbatim>\<open>sigwait\<close>: any number \<open>n\<close> of SIGHUPs in a row makes \<open>n\<close> reloads
  with \<open>n\<close> reads of the files, the loop is then still there to handle the next signal
  (a SIGTERM after them is handled as ever), and SIGHUPs alone never make the loop
  return.
\<close>

theorem reload_repeatable:
  "run_loop e ((0, SIGHUP) # rest) w = run_loop e rest (sighup_spec e w) \<and>
   run_loop e (replicate n (0, SIGHUP) @ rest) w = run_loop e rest ((sighup_spec e ^^ n) w) \<and>
   run_loop e (replicate n (0, SIGHUP)) w = None \<and>
   run_loop e (replicate n (0, SIGHUP) @ (0, SIGTERM) # rest) w =
     Some (((sighup_spec e ^^ n) w)
             \<lparr>trace := trace ((sighup_spec e ^^ n) w) @
                [Sys_sigwait, DBG1 ''signal of type SIGTERM received. Shutting down'' [],
                 Bus_alert ALERT_SHUTDOWN_SIGNAL SIGTERM]\<rparr>) \<and>
   length (filter (\<lambda>c. c = Load_files) (trace ((sighup_spec e ^^ n) w)))
     = length (filter (\<lambda>c. c = Load_files) (trace w)) + n \<and>
   sighup_spec e w =
     (let r = load_files e
                (w\<lparr>trace := trace w @
                    [Sys_sigwait,
                     DBG1 ''signal of type SIGHUP received. Reloading configuration'' []]\<rparr>)
      in (snd r)\<lparr>trace := trace (snd r) @
            [if fst r then Plugins_reload
             else DBG1 ''reloading config failed, keeping old'' []]\<rparr>) \<and>
   (config_files e (n_loads w) = None \<longrightarrow>
      conf (sighup_spec e w) = conf w \<and>
      trace (sighup_spec e w) = trace w @
        [Sys_sigwait, DBG1 ''signal of type SIGHUP received. Reloading configuration'' [],
         Load_files, DBG1 ''reloading config failed, keeping old'' []]) \<and>
   (config_files e (n_loads w) = Some s \<longrightarrow>
      conf (sighup_spec e w) = s \<and>
      trace (sighup_spec e w) = trace w @
        [Sys_sigwait, DBG1 ''signal of type SIGHUP received. Reloading configuration'' [],
         Load_files, Plugins_reload])"
proof -
  have none: "run_loop e (replicate n (0, SIGHUP)) w = None"
    using run_loop_sighups [where r = "[]"] by simp
  have stop: "run_loop e (replicate n (0, SIGHUP) @ (0, SIGTERM) # rest) w =
     Some (((sighup_spec e ^^ n) w)
             \<lparr>trace := trace ((sighup_spec e ^^ n) w) @
                [Sys_sigwait, DBG1 ''signal of type SIGTERM received. Shutting down'' [],
                 Bus_alert ALERT_SHUTDOWN_SIGNAL SIGTERM]\<rparr>)"
  proof -
    have "run_loop e (replicate n (0, SIGHUP) @ (0, SIGTERM) # rest) w
          = run_loop e ((0, SIGTERM) # rest) ((sighup_spec e ^^ n) w)"
      by (rule run_loop_sighups)
    then show ?thesis
      by (simp add: Let_def call_def alert_def SIGTERM_def SIGHUP_def SIGINT_def)
  qed
  have code: "sighup_spec e w =
     (let r = load_files e
                (w\<lparr>trace := trace w @
                    [Sys_sigwait,
                     DBG1 ''signal of type SIGHUP received. Reloading configuration'' []]\<rparr>)
      in (snd r)\<lparr>trace := trace (snd r) @
            [if fst r then Plugins_reload
             else DBG1 ''reloading config failed, keeping old'' []]\<rparr>)"
    by (cases w) (simp add: sighup_spec_def load_files_def call_def Let_def split: option.splits)
  have fail: "config_files e (n_loads w) = None \<longrightarrow>
      conf (sighup_spec e w) = conf w \<and>
      trace (sighup_spec e w) = trace w @
        [Sys_sigwait, DBG1 ''signal of type SIGHUP received. Reloading configuration'' [],
         Load_files, DBG1 ''reloading config failed, keeping old'' []]"
    by (simp add: sighup_spec_def)
  have ok: "config_files e (n_loads w) = Some s \<longrightarrow>
      conf (sighup_spec e w) = s \<and>
      trace (sighup_spec e w) = trace w @
        [Sys_sigwait, DBG1 ''signal of type SIGHUP received. Reloading configuration'' [],
         Load_files, Plugins_reload]"
    by (simp add: sighup_spec_def)
  have step: "run_loop e ((0, SIGHUP) # rest) w = run_loop e rest (sighup_spec e w)"
    by (rule run_loop_sighup)
  have rep: "run_loop e (replicate n (0, SIGHUP) @ rest) w
             = run_loop e rest ((sighup_spec e ^^ n) w)"
    by (rule run_loop_sighups)
  have reads: "length (filter (\<lambda>c. c = Load_files) (trace ((sighup_spec e ^^ n) w)))
     = length (filter (\<lambda>c. c = Load_files) (trace w)) + n"
    by (rule sighup_spec_reads)
  from step rep none stop reads code fail ok
  show ?thesis by (intro conjI)
qed

theorem reload_repeatable_witness:
  "run_loop (fair_env\<lparr>config_files := (\<lambda>n. if n = 0 then None else Some sample_settings)\<rparr>)
     [(0, SIGHUP), (0, SIGHUP), (0, SIGTERM)] boot
   = Some (boot\<lparr>trace :=
             [Sys_sigwait, DBG1 ''signal of type SIGHUP received. Reloading configuration'' [],
              Load_files, DBG1 ''reloading config failed, keeping old'' [],
              Sys_sigwait, DBG1 ''signal of type SIGHUP received. Reloading configuration'' [],
              Load_files, Plugins_reload,
              Sys_sigwait, DBG1 ''signal of type SIGTERM received. Shutting down'' [],
              Bus_alert ALERT_SHUTDOWN_SIGNAL SIGTERM],
            conf := sample_settings, n_loads := 2\<rparr>) \<and>
   conf (sighup_spec (fair_env\<lparr>config_files := (\<lambda>n. if n = 0 then None else Some sample_settings)\<rparr>)
          boot) = conf boot \<and>
   conf (sighup_spec (fair_env\<lparr>config_files := (\<lambda>n. if n = 0 then None else Some sample_settings)\<rparr>)
          (boot\<lparr>n_loads := 1\<rparr>)) = sample_settings"
proof -
  let ?e = "fair_env\<lparr>config_files := (\<lambda>n. if n = 0 then None else Some sample_settings)\<rparr>"
  note th = reload_repeatable [of ?e "[]" boot 2 sample_settings]
  note th1 = reload_repeatable [of ?e "[]" "boot\<lparr>n_loads := 1\<rparr>" 0 sample_settings]
  have rep: "replicate 2 (0 :: int, SIGHUP) @ [(0, SIGTERM)]
             = [(0, SIGHUP), (0, SIGHUP), (0, SIGTERM)]"
    by (simp add: numeral_2_eq_2)
  have two: "((sighup_spec ?e ^^ 2) boot)
               \<lparr>trace := trace ((sighup_spec ?e ^^ 2) boot) @
                  [Sys_sigwait, DBG1 ''signal of type SIGTERM received. Shutting down'' [],
                   Bus_alert ALERT_SHUTDOWN_SIGNAL SIGTERM]\<rparr>
      = boot\<lparr>trace :=
             [Sys_sigwait, DBG1 ''signal of type SIGHUP received. Reloading configuration'' [],
              Load_files, DBG1 ''reloading config failed, keeping old'' [],
              Sys_sigwait, DBG1 ''signal of type SIGHUP received. Reloading configuration'' [],
              Load_files, Plugins_reload,
              Sys_sigwait, DBG1 ''signal of type SIGTERM received. Shutting down'' [],
              Bus_alert ALERT_SHUTDOWN_SIGNAL SIGTERM],
            conf := sample_settings, n_loads := 2\<rparr>"
    by (simp add: numeral_2_eq_2 sighup_spec_def boot_def)
  have a: "run_loop ?e [(0, SIGHUP), (0, SIGHUP), (0, SIGTERM)] boot
   = Some (boot\<lparr>trace :=
             [Sys_sigwait, DBG1 ''signal of type SIGHUP received. Reloading configuration'' [],
              Load_files, DBG1 ''reloading config failed, keeping old'' [],
              Sys_sigwait, DBG1 ''signal of type SIGHUP received. Reloading configuration'' [],
              Load_files, Plugins_reload,
              Sys_sigwait, DBG1 ''signal of type SIGTERM received. Shutting down'' [],
              Bus_alert ALERT_SHUTDOWN_SIGNAL SIGTERM],
            conf := sample_settings, n_loads := 2\<rparr>)"
    using th [THEN conjunct2, THEN conjunct2, THEN conjunct2, THEN conjunct1]
    unfolding rep two .
  have b: "conf (sighup_spec ?e boot) = conf boot"
    using th [THEN conjunct2, THEN conjunct2, THEN conjunct2, THEN conjunct2, THEN conjunct2,
              THEN conjunct2, THEN conjunct1]
    by (simp add: boot_def)
  have c: "conf (sighup_spec ?e (boot\<lparr>n_loads := 1\<rparr>)) = sample_settings"
    using th1 [THEN conjunct2, THEN conjunct2, THEN conjunct2, THEN conjunct2, THEN conjunct2,
               THEN conjunct2, THEN conjunct2]
    by (simp add: boot_def)
  from a b c show ?thesis by (intro conjI)
qed

subsection \<open>The privilege drop\<close>

text \<open>
  C2. \<^verbatim>\<open>drop_capabilities\<close> calls \<^verbatim>\<open>setgid\<close> first. When \<^verbatim>\<open>setgid\<close> fails
  nothing but the log line follows: \<^verbatim>\<open>setuid\<close> is not called. When it succeeds
  \<^verbatim>\<open>setuid\<close> is called, and only when that succeeds too the daemon's own capability
  drop. The result is \<^verbatim>\<open>TRUE\<close> exactly when all three steps succeed.
\<close>

theorem drop_capabilities_order:
  "fst (drop_capabilities e w) = (setgid_ok e (gid w) \<and> setuid_ok e (uid w) \<and> drop_caps_ok e) \<and>
   trace (snd (drop_capabilities e w)) =
     trace w @ (if have_prctl e then [Sys_prctl_keepcaps] else []) @ [Sys_setgid (gid w)] @
     (if \<not> setgid_ok e (gid w) then [DBG1 ''change to unprivileged group failed'' []]
      else Sys_setuid (uid w) #
        (if \<not> setuid_ok e (uid w) then [DBG1 ''change to unprivileged user failed'' []]
         else Charon_drop_capabilities #
           (if \<not> drop_caps_ok e then [DBG1 ''unable to drop daemon capabilities'' []]
            else [])))"
  by (simp add: drop_capabilities_def call_def Let_def)

subsection \<open>The PID file\<close>

lemma atoi_Nil: "atoi [] = 0"
  by (simp add: atoi_def strtol_def to_int_def)

lemma pid_read: "(if buf \<noteq> [] then atoi buf else 0) = atoi buf"
  by (simp add: atoi_Nil)







subsection \<open>The loggers\<close>

lemma all_groups_complete: "g \<in> set all_groups"
  by (cases g) (simp_all add: all_groups_def)

lemma threshold_code:
  "get_int s (sect @ [debug_lower_names g]) (get_int s (sect @ [''default'']) 1)
     = threshold_spec s sect g"
  by (simp add: get_int_def threshold_spec_def split: option.splits)

lemma set_level_group:
  "r < length (loggers w) \<Longrightarrow>
   set_level r (Group g) l w =
     w\<lparr>loggers := (loggers w)[r := (loggers w ! r)\<lparr>levels := (levels (loggers w ! r))(g := Some l)\<rparr>]\<rparr>"
  by (simp add: set_level_def)

lemma set_level_foldl:
  "r < length (loggers w) \<Longrightarrow>
   foldl (\<lambda>w' g. set_level r (Group g) (f g) w') w gs =
     w\<lparr>loggers := (loggers w)[r := (loggers w ! r)\<lparr>levels :=
          (\<lambda>g. if g \<in> set gs then Some (f g) else levels (loggers w ! r) g)\<rparr>]\<rparr>"
proof (induction gs arbitrary: w)
  case Nil
  then show ?case by simp
next
  case (Cons g gs)
  let ?w = "set_level r (Group g) (f g) w"
  have len: "r < length (loggers ?w)"
    using Cons.prems by (simp add: set_level_group)
  have tab: "(\<lambda>x. if x \<in> set gs then Some (f x) else if x = g then Some (f g) else L x)
           = (\<lambda>x. if x = g \<or> x \<in> set gs then Some (f x) else L x)" for L
    by (auto simp: fun_eq_iff)
  have "foldl (\<lambda>w' g. set_level r (Group g) (f g) w') w (g # gs)
        = foldl (\<lambda>w' g. set_level r (Group g) (f g) w') ?w gs" by simp
  also have "\<dots> = ?w\<lparr>loggers := (loggers ?w)[r := (loggers ?w ! r)\<lparr>levels :=
          (\<lambda>g. if g \<in> set gs then Some (f g) else levels (loggers ?w ! r) g)\<rparr>]\<rparr>"
    by (rule Cons.IH [OF len])
  also have "\<dots> = w\<lparr>loggers := (loggers w)[r := (loggers w ! r)\<lparr>levels :=
          (\<lambda>x. if x \<in> set (g # gs) then Some (f x) else levels (loggers w ! r) x)\<rparr>]\<rparr>"
    using Cons.prems by (simp add: set_level_group tab cong: if_cong)
  finally show ?case .
qed

lemma set_configured_levels_eq:
  "r < length (loggers w) \<Longrightarrow>
   set_configured_levels s sect r w =
     w\<lparr>loggers := (loggers w)[r := (loggers w ! r)\<lparr>levels :=
          (\<lambda>g. Some (threshold_spec s sect g))\<rparr>]\<rparr>"
  by (simp add: set_configured_levels_def set_level_foldl all_groups_complete threshold_code)

lemma syslog_setup_eq:
  "syslog_setup s f (logger_create (Syslog fac) ike w) =
     register \<lparr>sink = Syslog fac, ike_name = ike,
               levels = (\<lambda>g. Some (threshold_spec s [''charon'', ''syslog'', f] g))\<rparr> w"
  by (cases w)
     (simp add: syslog_setup_def logger_create_def set_configured_levels_eq register_def
        add_listener_def insert_sys_logger_def Let_def)

lemma filelog_setup_eq:
  "filelog_setup s f strm w =
     register \<lparr>sink = Filelog strm (get_str s [''charon'', ''filelog'', f, ''time_format'']),
               ike_name = get_bool s [''charon'', ''filelog'', f, ''ike_name''] False,
               levels = (\<lambda>g. Some (threshold_spec s [''charon'', ''filelog'', f] g))\<rparr> w"
  by (cases w)
     (simp add: filelog_setup_def logger_create_def set_configured_levels_eq register_def
        add_listener_def insert_file_logger_def Let_def)

lemma registers_Nil: "registers [] w = w"
  by (simp add: registers_def)

lemma registers_Cons: "registers (l # ls) w = registers ls (register l w)"
  by (simp add: registers_def)

lemma registers_append: "registers (xs @ ys) w = registers ys (registers xs w)"
  by (simp add: registers_def)

lemma register_trace: "register l (w\<lparr>trace := t\<rparr>) = (register l w)\<lparr>trace := t\<rparr>"
  by (cases w; cases "sink l") (simp_all add: register_def)

lemma registers_trace: "registers ls (w\<lparr>trace := t\<rparr>) = (registers ls w)\<lparr>trace := t\<rparr>"
  by (induction ls arbitrary: w) (simp_all add: registers_Nil registers_Cons register_trace)

lemma trace_register: "trace (register l w) = trace w"
  by (simp add: register_def)

lemma trace_registers: "trace (registers ls w) = trace w"
  by (induction ls arbitrary: w) (simp_all add: registers_Nil registers_Cons trace_register)

lemma syslog_loop_eq:
  "syslog_loop s fs (n, w) = (n + length fs, registers (concat (map (sys_logger_spec s) fs)) w)"
proof (induction fs arbitrary: n w)
  case Nil
  show ?case by (simp add: registers_Nil)
next
  case (Cons f fs)
  show ?case
    by (simp add: Let_def Cons.IH syslog_setup_eq sys_logger_spec_def sys_facility_def
          registers_append registers_Cons registers_Nil)
qed

lemma filelog_loop_eq:
  "filelog_loop e s fs (n, w) =
     (n + length fs,
      (registers (concat (map (file_logger_spec e s) fs)) w)
        \<lparr>trace := trace w @ concat (map (file_calls e s) fs)\<rparr>)"
proof (induction fs arbitrary: n w)
  case Nil
  show ?case by (simp add: registers_Nil)
next
  case (Cons f fs)
  show ?case
    by (simp add: Let_def Cons.IH filelog_setup_eq file_logger_spec_def file_bound_def
          file_stream_def file_calls_def call_def
          registers_append registers_Cons registers_Nil registers_trace register_trace
          trace_register trace_registers)
qed

lemma set_level_foldl2:
  "rd < length (loggers w) \<Longrightarrow> rf < length (loggers w) \<Longrightarrow> rd \<noteq> rf \<Longrightarrow>
   foldl (\<lambda>w' g. set_level rf (Group g) (f g) (set_level rd (Group g) (f g) w')) w gs =
     w\<lparr>loggers := (loggers w)
         [rd := (loggers w ! rd)\<lparr>levels :=
            (\<lambda>g. if g \<in> set gs then Some (f g) else levels (loggers w ! rd) g)\<rparr>,
          rf := (loggers w ! rf)\<lparr>levels :=
            (\<lambda>g. if g \<in> set gs then Some (f g) else levels (loggers w ! rf) g)\<rparr>]\<rparr>"
proof (induction gs arbitrary: w)
  case Nil
  then show ?case by simp
next
  case (Cons g gs)
  let ?w = "set_level rf (Group g) (f g) (set_level rd (Group g) (f g) w)"
  have w: "?w = w\<lparr>loggers := (loggers w)
         [rd := (loggers w ! rd)\<lparr>levels := (levels (loggers w ! rd))(g := Some (f g))\<rparr>,
          rf := (loggers w ! rf)\<lparr>levels := (levels (loggers w ! rf))(g := Some (f g))\<rparr>]\<rparr>"
    using Cons.prems by (simp add: set_level_group)
  have len: "rd < length (loggers ?w)" "rf < length (loggers ?w)"
    using Cons.prems by (simp_all add: w)
  have tab: "(\<lambda>x. if x \<in> set gs then Some (f x) else if x = g then Some (f g) else L x)
           = (\<lambda>x. if x = g \<or> x \<in> set gs then Some (f x) else L x)" for L
    by (auto simp: fun_eq_iff)
  have "foldl (\<lambda>w' g. set_level rf (Group g) (f g) (set_level rd (Group g) (f g) w')) w (g # gs)
        = foldl (\<lambda>w' g. set_level rf (Group g) (f g) (set_level rd (Group g) (f g) w')) ?w gs"
    by simp
  also have "\<dots> = ?w\<lparr>loggers := (loggers ?w)
         [rd := (loggers ?w ! rd)\<lparr>levels :=
            (\<lambda>g. if g \<in> set gs then Some (f g) else levels (loggers ?w ! rd) g)\<rparr>,
          rf := (loggers ?w ! rf)\<lparr>levels :=
            (\<lambda>g. if g \<in> set gs then Some (f g) else levels (loggers ?w ! rf) g)\<rparr>]\<rparr>"
    by (rule Cons.IH [OF len Cons.prems(3)])
  also have "\<dots> = w\<lparr>loggers := (loggers w)
         [rd := (loggers w ! rd)\<lparr>levels :=
            (\<lambda>x. if x \<in> set (g # gs) then Some (f x) else levels (loggers w ! rd) x)\<rparr>,
          rf := (loggers w ! rf)\<lparr>levels :=
            (\<lambda>x. if x \<in> set (g # gs) then Some (f x) else levels (loggers w ! rf) x)\<rparr>]\<rparr>"
    using Cons.prems by (simp add: w tab list_update_swap [of rd rf] cong: if_cong)
  finally show ?case .
qed

lemma logger_create_eq:
  "fst (logger_create snk ike w) = length (loggers w)"
  "snd (logger_create snk ike w) =
     w\<lparr>loggers := loggers w @ [\<lparr>sink = snk, ike_name = ike, levels = (\<lambda>g. None)\<rparr>]\<rparr>"
  by (simp_all add: logger_create_def)

lemma default_loggers_eq:
  "default_loggers use_stderr lv w = registers (default_logger_specs use_stderr lv) w"
proof (cases use_stderr)
  case True
  then show ?thesis
    apply (cases w)
    apply (simp add: default_loggers_def logger_create_eq add_listener_def
          insert_file_logger_def insert_sys_logger_def Let_def)
    apply (simp add: set_level_foldl2 all_groups_complete)
    apply (simp add: set_level_def default_logger_specs_def registers_def register_def
          nth_append list_update_append)
    done
next
  case False
  then show ?thesis
    apply (cases w)
    apply (simp add: default_loggers_def logger_create_eq add_listener_def
          insert_file_logger_def insert_sys_logger_def Let_def)
    apply (simp add: set_level_foldl all_groups_complete)
    apply (simp add: set_level_def default_logger_specs_def registers_def register_def
          nth_append list_update_append)
    done
qed

lemma initialize_loggers_eq:
  "initialize_loggers e use_stderr lv w =
     (if sections (conf w) [''charon'', ''syslog''] = [] \<and>
         sections (conf w) [''charon'', ''filelog''] = []
      then registers (default_logger_specs use_stderr lv) w
      else (registers
              (concat (map (sys_logger_spec (conf w)) (sections (conf w) [''charon'', ''syslog''])) @
               concat (map (file_logger_spec e (conf w)) (sections (conf w) [''charon'', ''filelog''])))
              w)
           \<lparr>trace := trace w @
              concat (map (file_calls e (conf w)) (sections (conf w) [''charon'', ''filelog'']))\<rparr>)"
  by (simp add: initialize_loggers_def Let_def syslog_loop_eq filelog_loop_eq default_loggers_eq
        registers_append registers_Nil trace_registers)

lemma loggers_registers: "loggers (registers ls w) = loggers w @ ls"
  by (induction ls arbitrary: w) (simp_all add: registers_Nil registers_Cons register_def)

lemma bus_registers:
  "bus_listeners (registers ls w) =
     bus_listeners w @ [length (loggers w) ..< length (loggers w) + length ls]"
proof (induction ls arbitrary: w)
  case Nil
  show ?case by (simp add: registers_Nil)
next
  case (Cons l ls)
  have upt: "[n ..< n + Suc k] = n # [Suc n ..< Suc n + k]" for n k :: nat
    by (subst upt_rec) simp
  have reg: "bus_listeners (register l w) = bus_listeners w @ [length (loggers w)]"
    "length (loggers (register l w)) = Suc (length (loggers w))"
    by (simp_all add: register_def)
  have "bus_listeners (registers (l # ls) w)
        = (bus_listeners w @ [length (loggers w)]) @
          [Suc (length (loggers w)) ..< Suc (length (loggers w)) + length ls]"
    by (simp only: registers_Cons Cons.IH reg)
  also have "\<dots> = bus_listeners w @ [length (loggers w) ..< length (loggers w) + length (l # ls)]"
    using upt [of "length (loggers w)" "length ls"] by simp
  finally show ?case .
qed









text \<open>
  C6. With no section under \<^verbatim>\<open>charon.syslog\<close> and none under \<^verbatim>\<open>charon.filelog\<close>,
  \<^verbatim>\<open>initialize_loggers\<close> creates three loggers and puts exactly these three on the
  bus, in this order: a file logger on standard output, a syslog logger on the daemon
  facility, and a syslog logger on the authentication facility whose threshold is
  \<^verbatim>\<open>LEVEL_AUDIT\<close> for every category. No file is opened.
\<close>

theorem default_topology:
  "sections (conf w) [''charon'', ''syslog''] = [] \<and>
   sections (conf w) [''charon'', ''filelog''] = [] \<longrightarrow>
     loggers (initialize_loggers e use_stderr lv w) = loggers w @
       [\<lparr>sink = Filelog Stdout None, ike_name = False,
         levels = (\<lambda>g. if use_stderr then Some (lv g) else None)\<rparr>,
        \<lparr>sink = Syslog LOG_DAEMON, ike_name = False, levels = (\<lambda>g. Some (lv g))\<rparr>,
        \<lparr>sink = Syslog LOG_AUTHPRIV, ike_name = False, levels = (\<lambda>g. Some LEVEL_AUDIT)\<rparr>] \<and>
     bus_listeners (initialize_loggers e use_stderr lv w) = bus_listeners w @
       [length (loggers w), length (loggers w) + 1, length (loggers w) + 2] \<and>
     trace (initialize_loggers e use_stderr lv w) = trace w"
proof
  assume a: "sections (conf w) [''charon'', ''syslog''] = [] \<and>
   sections (conf w) [''charon'', ''filelog''] = []"
  have upt: "[n ..< n + 3] = [n, n + 1, n + 2]" for n :: nat
    by (simp add: upt_rec [of n] upt_rec [of "Suc n"] upt_rec [of "Suc (Suc n)"])
  have len: "length (default_logger_specs use_stderr lv) = 3"
    by (simp add: default_logger_specs_def)
  have init: "initialize_loggers e use_stderr lv w
              = registers (default_logger_specs use_stderr lv) w"
    using a by (simp add: initialize_loggers_eq)
  show "loggers (initialize_loggers e use_stderr lv w) = loggers w @
       [\<lparr>sink = Filelog Stdout None, ike_name = False,
         levels = (\<lambda>g. if use_stderr then Some (lv g) else None)\<rparr>,
        \<lparr>sink = Syslog LOG_DAEMON, ike_name = False, levels = (\<lambda>g. Some (lv g))\<rparr>,
        \<lparr>sink = Syslog LOG_AUTHPRIV, ike_name = False, levels = (\<lambda>g. Some LEVEL_AUDIT)\<rparr>] \<and>
     bus_listeners (initialize_loggers e use_stderr lv w) = bus_listeners w @
       [length (loggers w), length (loggers w) + 1, length (loggers w) + 2] \<and>
     trace (initialize_loggers e use_stderr lv w) = trace w"
    by (simp only: init loggers_registers bus_registers trace_registers len upt)
       (simp add: default_logger_specs_def)
qed

theorem default_topology_witness:
  "loggers (initialize_loggers fair_env False (\<lambda>g. LEVEL_CTRL) boot) =
       [\<lparr>sink = Filelog Stdout None, ike_name = False, levels = (\<lambda>g. None)\<rparr>,
        \<lparr>sink = Syslog LOG_DAEMON, ike_name = False, levels = (\<lambda>g. Some LEVEL_CTRL)\<rparr>,
        \<lparr>sink = Syslog LOG_AUTHPRIV, ike_name = False, levels = (\<lambda>g. Some LEVEL_AUDIT)\<rparr>] \<and>
   bus_listeners (initialize_loggers fair_env False (\<lambda>g. LEVEL_CTRL) boot) = [0, 1, 2]"
  using default_topology [of boot fair_env False "\<lambda>g. LEVEL_CTRL"]
  by (simp add: boot_def no_settings_def)

text \<open>
  C7. With at least one section configured, the loggers that \<^verbatim>\<open>initialize_loggers\<close>
  creates and puts on the bus are the listeners of the syslog sections followed by
  those of the file sections, and for every category the threshold of such a listener
  is the value configured for the category, else the default configured for the section,
  else 1: what the two nested calls of \<^verbatim>\<open>get_int\<close> return.
\<close>

theorem threshold_precedence:
  "(sections (conf w) [''charon'', ''syslog''] \<noteq> [] \<or>
    sections (conf w) [''charon'', ''filelog''] \<noteq> [] \<longrightarrow>
      loggers (initialize_loggers e use_stderr lv w) = loggers w @
        concat (map (sys_logger_spec (conf w)) (sections (conf w) [''charon'', ''syslog''])) @
        concat (map (file_logger_spec e (conf w)) (sections (conf w) [''charon'', ''filelog''])) \<and>
      bus_listeners (initialize_loggers e use_stderr lv w) = bus_listeners w @
        [length (loggers w) ..< length (loggers (initialize_loggers e use_stderr lv w))]) \<and>
   (\<forall>l\<in>set (sys_logger_spec s f).
      levels l g = Some (threshold_spec s [''charon'', ''syslog'', f] g)) \<and>
   (\<forall>l\<in>set (file_logger_spec e s f).
      levels l g = Some (threshold_spec s [''charon'', ''filelog'', f] g)) \<and>
   threshold_spec s sect g =
     get_int s (sect @ [debug_lower_names g]) (get_int s (sect @ [''default'']) 1)"
proof (intro conjI impI)
  assume a: "sections (conf w) [''charon'', ''syslog''] \<noteq> [] \<or>
    sections (conf w) [''charon'', ''filelog''] \<noteq> []"
  then have init: "initialize_loggers e use_stderr lv w =
     (registers
        (concat (map (sys_logger_spec (conf w)) (sections (conf w) [''charon'', ''syslog''])) @
         concat (map (file_logger_spec e (conf w)) (sections (conf w) [''charon'', ''filelog''])))
        w)
     \<lparr>trace := trace w @
        concat (map (file_calls e (conf w)) (sections (conf w) [''charon'', ''filelog'']))\<rparr>"
    by (auto simp: initialize_loggers_eq)
  show "loggers (initialize_loggers e use_stderr lv w) = loggers w @
        concat (map (sys_logger_spec (conf w)) (sections (conf w) [''charon'', ''syslog''])) @
        concat (map (file_logger_spec e (conf w)) (sections (conf w) [''charon'', ''filelog'']))"
    by (simp add: init loggers_registers)
  show "bus_listeners (initialize_loggers e use_stderr lv w) = bus_listeners w @
        [length (loggers w) ..< length (loggers (initialize_loggers e use_stderr lv w))]"
    by (simp add: init loggers_registers bus_registers)
next
  show "\<forall>l\<in>set (sys_logger_spec s f).
      levels l g = Some (threshold_spec s [''charon'', ''syslog'', f] g)"
    by (auto simp: sys_logger_spec_def split: option.splits)
  show "\<forall>l\<in>set (file_logger_spec e s f).
      levels l g = Some (threshold_spec s [''charon'', ''filelog'', f] g)"
    by (simp add: file_logger_spec_def)
  show "threshold_spec s sect g =
     get_int s (sect @ [debug_lower_names g]) (get_int s (sect @ [''default'']) 1)"
    by (simp add: threshold_code)
qed

theorem threshold_precedence_witness:
  "map (\<lambda>l. (sink l, levels l DBG_IKE, levels l DBG_KNL))
     (loggers (initialize_loggers fair_env True (\<lambda>g. LEVEL_CTRL) (boot\<lparr>conf := sample_settings\<rparr>)))
   = [(Syslog LOG_AUTHPRIV, Some 2, Some 0),
      (Filelog Stderr None, Some 1, Some 1),
      (Filelog (Opened ''/var/log/charon.log'') None, Some 1, Some 1)] \<and>
   bus_listeners (initialize_loggers fair_env True (\<lambda>g. LEVEL_CTRL) (boot\<lparr>conf := sample_settings\<rparr>))
   = [0, 1, 2]"
  using threshold_precedence [of "boot\<lparr>conf := sample_settings\<rparr>" fair_env True "\<lambda>g. LEVEL_CTRL"
      sample_settings "''auth''" DBG_IKE "[''charon'', ''syslog'', ''auth'']"]
  by (simp add: boot_def sample_settings_def no_settings_def fair_env_def sys_logger_spec_def
        sys_facility_def file_logger_spec_def file_bound_def file_stream_def threshold_spec_def
        get_str_def get_bool_def upt_rec [of 0] upt_rec [of "Suc 0"] upt_rec [of 1] upt_rec [of 2] upt_rec [of 3])



subsection \<open>Startup and shutdown\<close>

text \<open>
  C4 as stated does not hold on the code: when the first stage, \<^verbatim>\<open>library_init\<close>, fails, no
  stage has initialised successfully, yet \<^verbatim>\<open>library_deinit\<close> is run.
\<close>

theorem teardown_counterexample:
  "map_option (\<lambda>r. filter is_teardown (trace (snd r)))
     (main (fair_env\<lparr>library_init_ok := False\<rparr>) boot)
   \<noteq> Some (spec_teardown (fair_env\<lparr>library_init_ok := False\<rparr>))"
  by (simp add: main_def startup_def call_def boot_def spec_teardown_def)

text \<open>
  C4, amended. When a startup stage fails, the teardown routine of that stage and those
  of the stages initialised before it are run, in reverse order of initialisation, and
  nothing else is torn down: \<^verbatim>\<open>library_deinit\<close> alone when \<^verbatim>\<open>library_init\<close>
  fails (status \<^verbatim>\<open>SS_RC_LIBSTRONGSWAN_INTEGRITY\<close>) or when the integrity check of
  the executable fails (status \<^verbatim>\<open>SS_RC_DAEMON_INTEGRITY\<close>); \<^verbatim>\<open>libhydra_deinit\<close>
  and \<^verbatim>\<open>library_deinit\<close> when \<^verbatim>\<open>libhydra_init\<close> fails; all three when
  \<^verbatim>\<open>libcharon_init\<close> fails (status \<^verbatim>\<open>SS_RC_INITIALIZATION_FAILED\<close> in both
  cases). These three codes, success (0) and already-running (-1) are pairwise distinct.
\<close>

theorem startup_stage_failures:
  "(\<not> library_init_ok e \<longrightarrow>
      main e w = Some (SS_RC_LIBSTRONGSWAN_INTEGRITY,
                       w\<lparr>trace := trace w @ [Library_init, Library_deinit]\<rparr>)) \<and>
   (library_init_ok e \<and> integrity e = Some False \<longrightarrow>
      main e w = Some (SS_RC_DAEMON_INTEGRITY,
                       w\<lparr>trace := trace w @ [Library_init, Integrity_check_file,
                            Dbg_stderr ''integrity check of charon failed'', Library_deinit]\<rparr>)) \<and>
   (library_init_ok e \<and> integrity e \<noteq> Some False \<and> \<not> libhydra_init_ok e \<longrightarrow>
      main e w = Some (SS_RC_INITIALIZATION_FAILED,
                       w\<lparr>trace := trace w @ Library_init #
                            (if integrity e = None then [] else [Integrity_check_file]) @
                            [Libhydra_init, Dbg_stderr ''initialization failed - aborting charon'',
                             Libhydra_deinit, Library_deinit]\<rparr>)) \<and>
   (library_init_ok e \<and> integrity e \<noteq> Some False \<and> libhydra_init_ok e \<and>
    \<not> libcharon_init_ok e \<longrightarrow>
      main e w = Some (SS_RC_INITIALIZATION_FAILED,
                       w\<lparr>trace := trace w @ Library_init #
                            (if integrity e = None then [] else [Integrity_check_file]) @
                            [Libhydra_init, Libcharon_init,
                             Dbg_stderr ''initialization failed - aborting charon'',
                             Libcharon_deinit, Libhydra_deinit, Library_deinit]\<rparr>)) \<and>
   distinct [0, - 1, SS_RC_LIBSTRONGSWAN_INTEGRITY, SS_RC_DAEMON_INTEGRITY,
             SS_RC_INITIALIZATION_FAILED]"
  by (simp add: main_def startup_def deinit_def call_def Let_def
        SS_RC_LIBSTRONGSWAN_INTEGRITY_def SS_RC_DAEMON_INTEGRITY_def
        SS_RC_INITIALIZATION_FAILED_def)

theorem startup_stage_failures_witness:
  "main (fair_env\<lparr>library_init_ok := False\<rparr>) boot
     = Some (SS_RC_LIBSTRONGSWAN_INTEGRITY, boot\<lparr>trace := [Library_init, Library_deinit]\<rparr>) \<and>
   main (fair_env\<lparr>integrity := Some False\<rparr>) boot
     = Some (SS_RC_DAEMON_INTEGRITY,
             boot\<lparr>trace := [Library_init, Integrity_check_file,
                     Dbg_stderr ''integrity check of charon failed'', Library_deinit]\<rparr>) \<and>
   main (fair_env\<lparr>libhydra_init_ok := False\<rparr>) boot
     = Some (SS_RC_INITIALIZATION_FAILED,
             boot\<lparr>trace := [Library_init, Libhydra_init,
                     Dbg_stderr ''initialization failed - aborting charon'',
                     Libhydra_deinit, Library_deinit]\<rparr>) \<and>
   main (fair_env\<lparr>integrity := Some True, libcharon_init_ok := False\<rparr>) boot
     = Some (SS_RC_INITIALIZATION_FAILED,
             boot\<lparr>trace := [Library_init, Integrity_check_file, Libhydra_init, Libcharon_init,
                     Dbg_stderr ''initialization failed - aborting charon'',
                     Libcharon_deinit, Libhydra_deinit, Library_deinit]\<rparr>)"
  using startup_stage_failures [of "fair_env\<lparr>library_init_ok := False\<rparr>" boot]
    startup_stage_failures [of "fair_env\<lparr>integrity := Some False\<rparr>" boot]
    startup_stage_failures [of "fair_env\<lparr>libhydra_init_ok := False\<rparr>" boot]
    startup_stage_failures [of "fair_env\<lparr>integrity := Some True, libcharon_init_ok := False\<rparr>" boot]
  by (simp add: fair_env_def boot_def)

text \<open>What \<^verbatim>\<open>startup\<close> leaves of the PID file when it gets as far as \<^verbatim>\<open>run\<close>.\<close>

lemma drop_capabilities_keeps:
  "pidfile (snd (drop_capabilities e w)) = pidfile w"
  "marker (snd (drop_capabilities e w)) = marker w"
  "fst (drop_capabilities e w) \<Longrightarrow> \<not> privileged (snd (drop_capabilities e w))"
  by (simp_all add: drop_capabilities_def call_def Let_def split: if_splits)

lemma check_pidfile_claimed:
  "\<not> fst (check_pidfile e w) \<Longrightarrow>
     pidfile (snd (check_pidfile e w)) = (if fopen_w_ok e then Open_w else Null) \<and>
     (fopen_w_ok e \<longrightarrow> marker (snd (check_pidfile e w)) = Some (pid_line e))"
  by (auto simp: check_pidfile_def create_pidfile_def remove_stale_def call_def Let_def
        pid_read pid_line_def split: option.splits if_splits)

lemma check_pidfile_unwritable:
  "\<not> fopen_w_ok e \<Longrightarrow> \<not> unlink_ok e (privileged w) \<Longrightarrow>
   marker (snd (check_pidfile e w)) = marker w"
  by (auto simp: check_pidfile_def create_pidfile_def remove_stale_def call_def Let_def
        split: option.splits)

lemma marker_registers:
  "marker (registers ls w) = marker w" "privileged (registers ls w) = privileged w"
  by (induction ls arbitrary: w) (simp_all add: registers_Nil registers_Cons register_def)

lemma marker_initialize_loggers:
  "marker (initialize_loggers e u lv w) = marker w"
  "privileged (initialize_loggers e u lv w) = privileged w"
  by (simp_all add: initialize_loggers_eq marker_registers)

lemma marker_lookup_uid_gid:
  "marker (snd (lookup_uid_gid e w)) = marker w"
  "privileged (snd (lookup_uid_gid e w)) = privileged w"
  by (simp_all add: lookup_uid_gid_def call_def Let_def split: option.splits)

lemma alerts_file_calls: "alerts_of (concat (map (file_calls e s) fs)) = []"
  by (induction fs) (simp_all add: alerts_of_append file_calls_def)

lemma alerts_initialize_loggers:
  "alerts_of (trace (initialize_loggers e u lv w)) = alerts_of (trace w)"
  by (simp add: initialize_loggers_eq trace_registers alerts_of_append alerts_file_calls)

lemma alerts_lookup_uid_gid:
  "alerts_of (trace (snd (lookup_uid_gid e w))) = alerts_of (trace w)"
  by (simp add: lookup_uid_gid_def call_def Let_def alerts_of_append split: option.splits)

lemma alerts_check_pidfile:
  "alerts_of (trace (snd (check_pidfile e w))) = alerts_of (trace w)"
  by (simp add: check_pidfile_def create_pidfile_def remove_stale_def call_def Let_def
        alerts_of_append split: option.splits)

lemma alerts_drop_capabilities:
  "alerts_of (trace (snd (drop_capabilities e w))) = alerts_of (trace w)"
  by (simp add: drop_capabilities_def call_def Let_def alerts_of_append)

lemma startup_ready:
  assumes "startup e w = Inr w1"
  shows "pidfile w1 = (if fopen_w_ok e then Open_w else Null)"
    and "\<not> privileged w1"
    and "fopen_w_ok e \<Longrightarrow> marker w1 = Some (pid_line e)"
    and "\<not> fopen_w_ok e \<Longrightarrow> \<not> unlink_ok e (privileged w) \<Longrightarrow> marker w1 = marker w"
    and "alerts_of (trace w1) = alerts_of (trace w)"
proof -
  from assms obtain w6 where
    c: "\<not> fst (check_pidfile e w6)" and
    d: "fst (drop_capabilities e (snd (check_pidfile e w6)))" and
    w1: "w1 = call Charon_start
                (install_handlers (snd (drop_capabilities e (snd (check_pidfile e w6)))))" and
    w6: "marker w6 = marker w" "privileged w6 = privileged w"
        "alerts_of (trace w6) = alerts_of (trace w)"
    by (auto simp: startup_def Let_def call_def marker_initialize_loggers marker_lookup_uid_gid
          alerts_of_append alerts_initialize_loggers alerts_lookup_uid_gid
          split: if_splits sum.splits)
  show "pidfile w1 = (if fopen_w_ok e then Open_w else Null)"
    using check_pidfile_claimed [OF c]
    by (simp add: w1 call_def install_handlers_def drop_capabilities_keeps)
  show "\<not> privileged w1"
    using drop_capabilities_keeps(3) [OF d] by (simp add: w1 call_def install_handlers_def)
  show "marker w1 = Some (pid_line e)" if "fopen_w_ok e"
    using check_pidfile_claimed [OF c] that
    by (simp add: w1 call_def install_handlers_def drop_capabilities_keeps)
  show "marker w1 = marker w" if "\<not> fopen_w_ok e" "\<not> unlink_ok e (privileged w)"
    using check_pidfile_unwritable [of e w6] that w6
    by (simp add: w1 call_def install_handlers_def drop_capabilities_keeps)
  show "alerts_of (trace w1) = alerts_of (trace w)"
    using w6(3)
    by (simp add: w1 call_def install_handlers_def alerts_of_append alerts_drop_capabilities
          alerts_check_pidfile)
qed

text \<open>
  \<^verbatim>\<open>startup\<close> gets as far as \<^verbatim>\<open>run\<close> when every stage succeeds, no option is
  given, no process answers \<^verbatim>\<open>kill\<close> and the privilege drop succeeds.
\<close>

lemma startup_succeeds:
  assumes "library_init_ok e" "integrity e \<noteq> Some False" "libhydra_init_ok e"
    "libcharon_init_ok e" "getopts e = []" "ipsec_user e = None" "ipsec_group e = None"
    "charon_initialize_ok e" "\<forall>p. \<not> kill0 e p" "\<forall>g. setgid_ok e g" "\<forall>u. setuid_ok e u"
    "drop_caps_ok e"
  shows "\<exists>w1. startup e w = Inr w1"
proof -
  have l: "fst (lookup_uid_gid e x)" for x
    using assms by (simp add: lookup_uid_gid_def)
  have c: "\<not> fst (check_pidfile e x)" for x
    using assms by (simp add: check_pidfile_def Let_def split: option.splits)
  have d: "fst (drop_capabilities e x)" for x
    using assms by (simp add: drop_capabilities_def Let_def)
  show ?thesis
    using assms by (simp add: startup_def Let_def l c d)
qed

lemma filelog_loop_signals:
  "filelog_loop (e\<lparr>signals := x\<rparr>) s fs nw = filelog_loop e s fs nw"
  by (induction fs arbitrary: nw) (simp_all add: Let_def)

lemma startup_signals: "startup (e\<lparr>signals := x\<rparr>) w = startup e w"
proof -
  have l: "lookup_uid_gid (e\<lparr>signals := x\<rparr>) = lookup_uid_gid e"
    by (simp add: fun_eq_iff lookup_uid_gid_def cong: option.case_cong)
  have i: "initialize_loggers (e\<lparr>signals := x\<rparr>) = initialize_loggers e"
    by (simp add: fun_eq_iff initialize_loggers_def filelog_loop_signals)
  have cp: "create_pidfile (e\<lparr>signals := x\<rparr>) = create_pidfile e"
    by (simp add: fun_eq_iff create_pidfile_def Let_def cong: if_cong)
  have rs: "remove_stale (e\<lparr>signals := x\<rparr>) = remove_stale e"
    by (simp add: fun_eq_iff remove_stale_def Let_def cong: if_cong)
  have c: "check_pidfile (e\<lparr>signals := x\<rparr>) = check_pidfile e"
    by (simp add: fun_eq_iff check_pidfile_def cp rs Let_def cong: option.case_cong if_cong)
  have d: "drop_capabilities (e\<lparr>signals := x\<rparr>) = drop_capabilities e"
    by (simp add: fun_eq_iff drop_capabilities_def Let_def cong: if_cong)
  show ?thesis
    unfolding startup_def l i c d by (simp cong: if_cong sum.case_cong)
qed

lemma unlink_pidfile_after_run:
  assumes "pidfile w = (if fopen_w_ok e then Open_w else Null)" "\<not> privileged w"
    "fopen_w_ok e \<Longrightarrow> marker w \<noteq> None"
  shows "deinit 0 (unlink_pidfile e w) =
     (0, w\<lparr>trace := trace w @ (if fopen_w_ok e then [Sys_ftruncate, Sys_fclose] else []) @
            [Sys_unlink PID_FILE, Libcharon_deinit, Libhydra_deinit, Library_deinit],
        pidfile := (if fopen_w_ok e then Closed else Null),
        marker := (if unlink_ok e False then None
                   else if fopen_w_ok e then Some [] else marker w)\<rparr>)"
  using assms by (cases w) (auto simp: deinit_def unlink_pidfile_def call_def Let_def)

text \<open>The loop passes over reloads and unknown signals, whatever comes after them.\<close>

lemma run_loop_pass:
  "\<forall>x\<in>set pre. fst x = 0 \<and> snd x \<noteq> SIGINT \<and> snd x \<noteq> SIGTERM \<Longrightarrow>
   run_loop e (pre @ r) w = run_loop e r (pass_over e pre w)"
proof (induction pre arbitrary: w)
  case Nil
  show ?case by simp
next
  case (Cons x pre)
  obtain err s where x: "x = (err, s)" by (cases x)
  from Cons.prems x have err: "err = 0" and s: "s \<noteq> SIGINT" "s \<noteq> SIGTERM" by auto
  from Cons.prems have rest: "\<forall>x\<in>set pre. fst x = 0 \<and> snd x \<noteq> SIGINT \<and> snd x \<noteq> SIGTERM"
    by simp
  show ?case
  proof (cases "s = SIGHUP")
    case True
    then show ?thesis
      using Cons.IH [OF rest, of "sighup_spec e w"] run_loop_sighup [of e "pre @ r" w] err x
      by simp
  next
    case False
    let ?w1 = "w\<lparr>trace := trace w @
                 [Sys_sigwait, DBG1 ''unknown signal %d received. Ignored'' [I s]]\<rparr>"
    have "run_loop e ((x # pre) @ r) w = run_loop e (pre @ r) ?w1"
      using False err x s by (simp add: Let_def call_def)
    then show ?thesis
      using Cons.IH [OF rest, of ?w1] False x by simp
  qed
qed

lemma pass_over_keeps:
  "pidfile (pass_over e pre w) = pidfile w"
  "marker (pass_over e pre w) = marker w"
  "privileged (pass_over e pre w) = privileged w"
  "alerts_of (trace (pass_over e pre w)) = alerts_of (trace w)"
  by (induction pre arbitrary: w)
     (simp_all add: sighup_spec_def alerts_of_append split: option.splits)

lemma pass_over_signals: "pass_over (e\<lparr>signals := x\<rparr>) pre w = pass_over e pre w"
proof -
  have "sighup_spec (e\<lparr>signals := x\<rparr>) = sighup_spec e"
    by (simp add: fun_eq_iff sighup_spec_def)
  then show ?thesis
    by (induction pre arbitrary: w) simp_all
qed

lemma main_sigwait_error:
  assumes st: "startup e w = Inr w1" and err: "err \<noteq> 0"
    and pre: "\<forall>x\<in>set pre. fst x = 0 \<and> snd x \<noteq> SIGINT \<and> snd x \<noteq> SIGTERM"
  shows "main (e\<lparr>signals := pre @ (err, sig) # rest\<rparr>) w
       = Some (0, clean_shutdown e pre
                    [DBG1 ''error %d while waiting for a signal'' [I err]] w1)"
proof -
  note ready = startup_ready [OF st]
  let ?e = "e\<lparr>signals := pre @ (err, sig) # rest\<rparr>"
  let ?W = "pass_over e pre (call Sys_sigprocmask w1)"
  let ?r = "?W\<lparr>trace := trace ?W @
                 [Sys_sigwait, DBG1 ''error %d while waiting for a signal'' [I err]]\<rparr>"
  have "run ?e w1 = run_loop ?e ((err, sig) # rest) ?W"
    by (simp add: run_def run_loop_pass [OF pre] pass_over_signals)
  then have run: "run ?e w1 = Some ?r"
    using err by (simp add: Let_def call_def)
  have keep: "pidfile ?r = (if fopen_w_ok ?e then Open_w else Null)" "\<not> privileged ?r"
    "fopen_w_ok ?e \<Longrightarrow> marker ?r \<noteq> None" "marker ?r = marker w1"
    using ready(1-3) by (simp_all add: pass_over_keeps call_def)
  have "deinit 0 (unlink_pidfile ?e ?r) =
          (0, clean_shutdown e pre [DBG1 ''error %d while waiting for a signal'' [I err]] w1)"
    using keep(4) by (simp add: unlink_pidfile_after_run [OF keep(1-3)] clean_shutdown_def Let_def)
  then show ?thesis
    by (simp add: main_def startup_signals st run)
qed

lemma main_sigterm:
  assumes st: "startup e w = Inr w1"
    and pre: "\<forall>x\<in>set pre. fst x = 0 \<and> snd x \<noteq> SIGINT \<and> snd x \<noteq> SIGTERM"
  shows "main (e\<lparr>signals := pre @ (0, SIGTERM) # rest\<rparr>) w
       = Some (0, clean_shutdown e pre
                    [DBG1 ''signal of type SIGTERM received. Shutting down'' [],
                     Bus_alert ALERT_SHUTDOWN_SIGNAL SIGTERM] w1)"
proof -
  note ready = startup_ready [OF st]
  let ?e = "e\<lparr>signals := pre @ (0, SIGTERM) # rest\<rparr>"
  let ?W = "pass_over e pre (call Sys_sigprocmask w1)"
  let ?r = "?W\<lparr>trace := trace ?W @
                 [Sys_sigwait, DBG1 ''signal of type SIGTERM received. Shutting down'' [],
                  Bus_alert ALERT_SHUTDOWN_SIGNAL SIGTERM]\<rparr>"
  have "run ?e w1 = run_loop ?e ((0, SIGTERM) # rest) ?W"
    by (simp add: run_def run_loop_pass [OF pre] pass_over_signals)
  then have run: "run ?e w1 = Some ?r"
    by (simp add: Let_def call_def alert_def SIGTERM_def SIGHUP_def SIGINT_def)
  have keep: "pidfile ?r = (if fopen_w_ok ?e then Open_w else Null)" "\<not> privileged ?r"
    "fopen_w_ok ?e \<Longrightarrow> marker ?r \<noteq> None" "marker ?r = marker w1"
    using ready(1-3) by (simp_all add: pass_over_keeps call_def)
  have "deinit 0 (unlink_pidfile ?e ?r) =
          (0, clean_shutdown e pre
                [DBG1 ''signal of type SIGTERM received. Shutting down'' [],
                 Bus_alert ALERT_SHUTDOWN_SIGNAL SIGTERM] w1)"
    using keep(4) by (simp add: unlink_pidfile_after_run [OF keep(1-3)] clean_shutdown_def Let_def)
  then show ?thesis
    by (simp add: main_def startup_signals st run)
qed

text \<open>
  C10 as stated does not hold on the code: once the privileges are dropped \<^verbatim>\<open>unlink\<close> may
  fail, and the marker is then truncated but still there when the process ends; and a
  marker that could not be opened for writing at startup is not truncated either.
\<close>

theorem sigwait_error_shutdown_counterexample:
  "map_option (\<lambda>r. marker (snd r))
     (main (fair_env\<lparr>unlink_ok := (\<lambda>p. p), signals := [(4, 0)]\<rparr>) boot) = Some (Some []) \<and>
   map_option (\<lambda>r. marker (snd r))
     (main (fair_env\<lparr>fopen_w_ok := False, unlink_ok := (\<lambda>p. False), signals := [(4, 0)]\<rparr>)
        (boot\<lparr>marker := Some ''garbage''\<rparr>)) = Some (Some ''garbage'')"
proof -
  let ?e1 = "fair_env\<lparr>unlink_ok := (\<lambda>p. p)\<rparr>"
  let ?e2 = "fair_env\<lparr>fopen_w_ok := False, unlink_ok := (\<lambda>p. False)\<rparr>"
  let ?w2 = "boot\<lparr>marker := Some ''garbage''\<rparr>"
  obtain w1 where s1: "startup ?e1 boot = Inr w1"
    using startup_succeeds [of ?e1 boot] by (auto simp: fair_env_def)
  obtain w2 where s2: "startup ?e2 ?w2 = Inr w2"
    using startup_succeeds [of ?e2 ?w2] by (auto simp: fair_env_def)
  have m2: "marker w2 = Some ''garbage''"
    using startup_ready(4) [OF s2] by (simp add: fair_env_def boot_def)
  have "map_option (\<lambda>r. marker (snd r)) (main (?e1\<lparr>signals := [(4, 0)]\<rparr>) boot) = Some (Some [])"
    using main_sigwait_error [OF s1, of 4 "[]" 0 "[]"]
    by (simp add: clean_shutdown_def Let_def fair_env_def)
  moreover have "map_option (\<lambda>r. marker (snd r)) (main (?e2\<lparr>signals := [(4, 0)]\<rparr>) ?w2)
        = Some (Some ''garbage'')"
    using main_sigwait_error [OF s2, of 4 "[]" 0 "[]"] m2
    by (simp add: clean_shutdown_def Let_def fair_env_def)
  ultimately show ?thesis by simp
qed

text \<open>
  C10, amended. When \<^verbatim>\<open>sigwait\<close> returns an error, at the first wait or after any
  number of reloads and unknown signals, \<^verbatim>\<open>run\<close> logs the error and returns, and
  from the start of the process no alert has been published. \<^verbatim>\<open>main\<close> then goes
  through the clean shutdown: the marker is truncated when it had been opened for
  writing at startup, \<^verbatim>\<open>unlink\<close> is called on it (and the file is gone when
  \<^verbatim>\<open>unlink\<close> succeeds), the three teardown routines run in reverse order of
  initialisation, and the exit status is 0. A shutdown asked for by SIGTERM at the same
  point ends in the same way with the same status: the two leave the same world but for
  the trace, where they differ in the log line and the alert only.
\<close>

theorem sigwait_error_shutdown:
  "startup e w = Inr w1 \<and> err \<noteq> 0 \<and>
   (\<forall>x\<in>set pre. fst x = 0 \<and> snd x \<noteq> SIGINT \<and> snd x \<noteq> SIGTERM) \<longrightarrow>
     main (e\<lparr>signals := pre @ (err, sig) # rest\<rparr>) w
       = Some (0, clean_shutdown e pre
                    [DBG1 ''error %d while waiting for a signal'' [I err]] w1) \<and>
     main (e\<lparr>signals := pre @ (0, SIGTERM) # rest\<rparr>) w
       = Some (0, clean_shutdown e pre
                    [DBG1 ''signal of type SIGTERM received. Shutting down'' [],
                     Bus_alert ALERT_SHUTDOWN_SIGNAL SIGTERM] w1) \<and>
     alerts_of (trace (clean_shutdown e pre
                         [DBG1 ''error %d while waiting for a signal'' [I err]] w1))
       = alerts_of (trace w) \<and>
     (clean_shutdown e pre [DBG1 ''error %d while waiting for a signal'' [I err]] w1)
         \<lparr>trace := []\<rparr>
       = (clean_shutdown e pre
            [DBG1 ''signal of type SIGTERM received. Shutting down'' [],
             Bus_alert ALERT_SHUTDOWN_SIGNAL SIGTERM] w1)\<lparr>trace := []\<rparr>"
proof (intro impI, elim conjE)
  assume st: "startup e w = Inr w1" and err: "err \<noteq> 0"
    and pre: "\<forall>x\<in>set pre. fst x = 0 \<and> snd x \<noteq> SIGINT \<and> snd x \<noteq> SIGTERM"
  have al: "alerts_of (trace (clean_shutdown e pre
                         [DBG1 ''error %d while waiting for a signal'' [I err]] w1))
       = alerts_of (trace w)"
    using startup_ready(5) [OF st]
    by (simp add: clean_shutdown_def Let_def alerts_of_append pass_over_keeps call_def)
  have same: "(clean_shutdown e pre [DBG1 ''error %d while waiting for a signal'' [I err]] w1)
         \<lparr>trace := []\<rparr>
       = (clean_shutdown e pre
            [DBG1 ''signal of type SIGTERM received. Shutting down'' [],
             Bus_alert ALERT_SHUTDOWN_SIGNAL SIGTERM] w1)\<lparr>trace := []\<rparr>"
    by (simp add: clean_shutdown_def Let_def)
  from main_sigwait_error [OF st err pre, of sig rest] main_sigterm [OF st pre, of rest] al same
  show "main (e\<lparr>signals := pre @ (err, sig) # rest\<rparr>) w
       = Some (0, clean_shutdown e pre
                    [DBG1 ''error %d while waiting for a signal'' [I err]] w1) \<and>
     main (e\<lparr>signals := pre @ (0, SIGTERM) # rest\<rparr>) w
       = Some (0, clean_shutdown e pre
                    [DBG1 ''signal of type SIGTERM received. Shutting down'' [],
                     Bus_alert ALERT_SHUTDOWN_SIGNAL SIGTERM] w1) \<and>
     alerts_of (trace (clean_shutdown e pre
                         [DBG1 ''error %d while waiting for a signal'' [I err]] w1))
       = alerts_of (trace w) \<and>
     (clean_shutdown e pre [DBG1 ''error %d while waiting for a signal'' [I err]] w1)
         \<lparr>trace := []\<rparr>
       = (clean_shutdown e pre
            [DBG1 ''signal of type SIGTERM received. Shutting down'' [],
             Bus_alert ALERT_SHUTDOWN_SIGNAL SIGTERM] w1)\<lparr>trace := []\<rparr>"
    by (intro conjI)
qed

theorem sigwait_error_shutdown_witness:
  "map_option fst (main (fair_env\<lparr>signals := [(0, SIGHUP), (0, 10), (4, 0)]\<rparr>) boot) = Some 0 \<and>
   map_option fst (main (fair_env\<lparr>signals := [(0, SIGHUP), (0, 10), (0, SIGTERM)]\<rparr>) boot)
     = Some 0 \<and>
   map_option (\<lambda>r. alerts_of (trace (snd r)))
     (main (fair_env\<lparr>signals := [(0, SIGHUP), (0, 10), (4, 0)]\<rparr>) boot) = Some [] \<and>
   map_option (\<lambda>r. marker (snd r))
     (main (fair_env\<lparr>signals := [(0, SIGHUP), (0, 10), (4, 0)]\<rparr>) boot) = Some None \<and>
   map_option (\<lambda>r. pidfile (snd r))
     (main (fair_env\<lparr>signals := [(0, SIGHUP), (0, 10), (4, 0)]\<rparr>) boot) = Some Closed"
proof -
  obtain w1 where st: "startup fair_env boot = Inr w1"
    using startup_succeeds [of fair_env boot] by (auto simp: fair_env_def)
  have err: "(4 :: int) \<noteq> 0" by simp
  have pre: "\<forall>x\<in>set [(0, SIGHUP), (0, 10)]. fst x = 0 \<and> snd x \<noteq> SIGINT \<and> snd x \<noteq> SIGTERM"
    by (simp add: SIGHUP_def SIGINT_def SIGTERM_def)
  from sigwait_error_shutdown [of fair_env boot w1 4 "[(0, SIGHUP), (0, 10)]" 0 "[]"] st err pre
  have "main (fair_env\<lparr>signals := [(0, SIGHUP), (0, 10), (4, 0)]\<rparr>) boot
       = Some (0, clean_shutdown fair_env [(0, SIGHUP), (0, 10)]
                    [DBG1 ''error %d while waiting for a signal'' [I 4]] w1) \<and>
     main (fair_env\<lparr>signals := [(0, SIGHUP), (0, 10), (0, SIGTERM)]\<rparr>) boot
       = Some (0, clean_shutdown fair_env [(0, SIGHUP), (0, 10)]
                    [DBG1 ''signal of type SIGTERM received. Shutting down'' [],
                     Bus_alert ALERT_SHUTDOWN_SIGNAL SIGTERM] w1) \<and>
     alerts_of (trace (clean_shutdown fair_env [(0, SIGHUP), (0, 10)]
                         [DBG1 ''error %d while waiting for a signal'' [I 4]] w1))
       = alerts_of (trace boot)"
    by simp
  then show ?thesis
    by (simp add: clean_shutdown_def Let_def) (simp add: fair_env_def boot_def)
qed

end
